theory Spec2Isabelle
  imports Main "HOL-Library.Sublist"
begin

unbundle bit_operations_syntax

section \<open>The build script of the command-line package\<close>

text \<open>
  The development follows \<^verbatim>\<open>packages/cli/helpers/build.ts\<close>: two compiler plugins
  (\<^verbatim>\<open>cliLifecyclePlugin\<close>, \<^verbatim>\<open>externalPackageJson\<close>), three build configurations,
  and the helpers \<^verbatim>\<open>chmodX\<close> and \<^verbatim>\<open>replaceFirstLine\<close>.
  Everything the script imports (the \<^verbatim>\<open>path\<close> and \<^verbatim>\<open>fs\<close> modules, \<^verbatim>\<open>fs-extra\<close>,
  \<^verbatim>\<open>line-replace\<close>, \<^verbatim>\<open>run\<close>, \<^verbatim>\<open>build\<close>) is outside the file; the script is modelled
  over a record of these collaborators, and effects are explicit: a world of files plus
  the trace of collaborator calls made so far.
\<close>

subsection \<open>The POSIX \<^verbatim>\<open>path\<close> module\<close>

type_synonym path = string

text \<open>Pieces of a string between slashes; \<^verbatim>\<open>"a//b"\<close> has an empty piece.\<close>

fun split_slash :: "string \<Rightarrow> string list" where
  "split_slash [] = [[]]"
| "split_slash (c # cs) =
     (if c = CHR ''/'' then [] # split_slash cs
      else (case split_slash cs of
              [] \<Rightarrow> [[c]]
            | s # ss \<Rightarrow> (c # s) # ss))"

fun join_slash :: "string list \<Rightarrow> string" where
  "join_slash [] = []"
| "join_slash [s] = s"
| "join_slash (s # t # ss) = s @ CHR ''/'' # join_slash (t # ss)"

text \<open>
  \<^verbatim>\<open>normalizeString\<close>: empty pieces and \<^verbatim>\<open>.\<close> vanish, \<^verbatim>\<open>..\<close> removes the piece before
  it; above the start it is kept only when \<open>allowAboveRoot\<close> holds. The accumulator holds
  the pieces kept so far, last one first.
\<close>

fun normalizeString :: "bool \<Rightarrow> string list \<Rightarrow> string list \<Rightarrow> string list" where
  "normalizeString allowAboveRoot acc [] = rev acc"
| "normalizeString allowAboveRoot acc (s # ss) =
     (if s = [] \<or> s = ''.'' then normalizeString allowAboveRoot acc ss
      else if s = ''..'' then
        (case acc of
           [] \<Rightarrow> normalizeString allowAboveRoot (if allowAboveRoot then [''..''] else []) ss
         | t # acc' \<Rightarrow>
             if t = ''..'' then normalizeString allowAboveRoot (''..'' # acc) ss
             else normalizeString allowAboveRoot acc' ss)
      else normalizeString allowAboveRoot (s # acc) ss)"

definition isAbsolute :: "path \<Rightarrow> bool" where
  "isAbsolute p = (case p of [] \<Rightarrow> False | c # _ \<Rightarrow> c = CHR ''/'')"

definition path_normalize :: "path \<Rightarrow> path" where
  "path_normalize p =
     (if p = [] then ''.''
      else let trailingSeparator = (last p = CHR ''/'');
               q = join_slash (normalizeString (\<not> isAbsolute p) [] (split_slash p))
           in if q = [] then (if isAbsolute p then ''/'' else if trailingSeparator then ''./'' else ''.'')
              else (if isAbsolute p then ''/'' else []) @ q @ (if trailingSeparator then ''/'' else []))"

text \<open>\<^verbatim>\<open>path.join\<close>: the non-empty arguments joined by a slash, then normalised.\<close>

definition path_join :: "path list \<Rightarrow> path" where
  "path_join args =
     (case filter (\<lambda>a. a \<noteq> []) args of
        [] \<Rightarrow> ''.''
      | a # as \<Rightarrow> path_normalize (join_slash (a # as)))"

text \<open>
  \<^verbatim>\<open>path.resolve\<close>: arguments are taken from the right until an absolute one is met,
  the working directory standing in when none is; the result is normalised and absolute.
\<close>

fun resolve_collect :: "path list \<Rightarrow> path \<Rightarrow> path" where
  "resolve_collect [] resolvedPath = resolvedPath"
| "resolve_collect (p # ps) resolvedPath =
     (if p = [] then resolve_collect ps resolvedPath
      else if isAbsolute p then p @ CHR ''/'' # resolvedPath
      else resolve_collect ps (p @ CHR ''/'' # resolvedPath))"

definition path_resolve :: "path \<Rightarrow> path list \<Rightarrow> path" where
  "path_resolve cwd args =
     (let resolvedPath = resolve_collect (rev (cwd # args)) [];
          resolvedAbsolute = isAbsolute resolvedPath;
          q = join_slash (normalizeString (\<not> resolvedAbsolute) [] (split_slash resolvedPath))
      in if resolvedAbsolute then CHR ''/'' # q
         else if q \<noteq> [] then q else ''.'')"

text \<open>\<^verbatim>\<open>path.dirname\<close>: scan from the right for the slash that ends the directory part.\<close>

fun dirname_scan :: "path \<Rightarrow> nat \<Rightarrow> bool \<Rightarrow> nat option" where
  "dirname_scan p 0 matchedSlash = None"
| "dirname_scan p (Suc i) matchedSlash =
     (if p ! Suc i = CHR ''/'' then
        (if \<not> matchedSlash then Some (Suc i) else dirname_scan p i matchedSlash)
      else dirname_scan p i False)"

definition path_dirname :: "path \<Rightarrow> path" where
  "path_dirname p =
     (if p = [] then ''.''
      else let hasRoot = isAbsolute p
           in case dirname_scan p (length p - 1) True of
                None \<Rightarrow> if hasRoot then ''/'' else ''.''
              | Some e \<Rightarrow> if hasRoot \<and> e = 1 then ''//'' else take e p)"

text \<open>
  \<^verbatim>\<open>path.relative\<close>: both paths are resolved, their common leading pieces dropped, and
  one \<^verbatim>\<open>..\<close> is emitted for every piece left of \<open>from\<close>.
\<close>

fun drop_common :: "string list \<Rightarrow> string list \<Rightarrow> string list \<times> string list" where
  "drop_common (a # as) (b # bs) = (if a = b then drop_common as bs else (a # as, b # bs))"
| "drop_common as bs = (as, bs)"

definition pieces :: "path \<Rightarrow> string list" where
  "pieces p = filter (\<lambda>s. s \<noteq> []) (split_slash p)"

definition path_relative :: "path \<Rightarrow> path \<Rightarrow> path \<Rightarrow> path" where
  "path_relative cwd from to =
     (if from = to then []
      else let from' = path_resolve cwd [from]; to' = path_resolve cwd [to]
           in if from' = to' then []
              else (case drop_common (pieces from') (pieces to') of
                      (fs, ts) \<Rightarrow> join_slash (map (\<lambda>_. ''..'') fs @ ts)))"

subsection \<open>Files, errors and collaborator calls\<close>

record file_entry =
  file_content :: string
  file_mode :: nat

type_synonym files = "path \<rightharpoonup> file_entry"

datatype error =
    ENOENT path
  | EACCES path
  | EPERM path
  | ModuleNotFound string
  | ExitNonZero string
  | InvalidArg string
  | TypeError string
  | BuildError string

record Stats =
  mode :: nat

record copy_options =
  recursive :: bool
  overwrite :: bool

text \<open>The options object handed to \<^verbatim>\<open>lineReplace\<close>, and the object its callback receives.\<close>

record lineReplace_options =
  lr_file :: path
  lr_line :: nat
  lr_text :: string
  lr_addNewLine :: bool

record lineReplace_result =
  lr_error :: "error option"
  lr_replacedText :: "string option"

text \<open>Every call of a collaborator is recorded, in the order it is made.\<close>

datatype call =
    Run string
  | Copy path path copy_options
  | CopyFile path path
  | LineReplace lineReplace_options
  | StatSync path
  | ChmodSync path string
  | Compile string

record world =
  files :: files
  trace :: "call list"

text \<open>
  The imports of the script and the two ambient values it reads (\<^verbatim>\<open>__dirname\<close> and the
  working directory). A collaborator maps the files before the call to an error or to
  the files after it. \<open>run\<close> is the process-execution collaborator of the spec
  (\<^verbatim>\<open>helpers/compile/run\<close>, not among the sources): it runs a shell command to completion
  and fails its caller when the command exits non-zero. \<open>copy\<close> is the recursive copy
  of \<^verbatim>\<open>fs-extra\<close>, \<open>copyFile\<close>, \<open>statSync\<close> and \<open>chmodSync\<close> are those of \<^verbatim>\<open>fs\<close>, and
  \<open>compile\<close> is the compiler at work on the target of a given name. \<open>lineReplace\<close>
  does not throw: it hands an object to its callback, and that object carries the
  error if there is one.
\<close>

record env =
  dirname :: path
  cwd :: path
  require_resolve :: "string \<Rightarrow> error + path"
  run :: "string \<Rightarrow> files \<Rightarrow> error + files"
  copy :: "path \<Rightarrow> path \<Rightarrow> copy_options \<Rightarrow> files \<Rightarrow> error + files"
  copyFile :: "path \<Rightarrow> path \<Rightarrow> files \<Rightarrow> error + files"
  lineReplace :: "lineReplace_options \<Rightarrow> files \<Rightarrow> lineReplace_result \<times> files"
  statSync :: "path \<Rightarrow> files \<Rightarrow> error + Stats"
  chmodSync :: "path \<Rightarrow> string \<Rightarrow> files \<Rightarrow> error + files"
  compile :: "string \<Rightarrow> files \<Rightarrow> error + files"

subsection \<open>Sequencing\<close>

text \<open>
  A computation takes the world and returns the world it leaves together with an error
  (a thrown exception, a rejected promise) or a value. \<open>bind\<close> is \<^verbatim>\<open>await\<close> followed
  by the rest of an \<^verbatim>\<open>async\<close> body: the rest runs on the world the first part left, and
  only when the first part did not fail.
\<close>

type_synonym 'a io = "world \<Rightarrow> (error + 'a) \<times> world"

definition ret :: "'a \<Rightarrow> 'a io" where
  "ret x w = (Inr x, w)"

definition bind :: "'a io \<Rightarrow> ('a \<Rightarrow> 'b io) \<Rightarrow> 'b io" where
  "bind m k w = (case m w of (Inl e, w') \<Rightarrow> (Inl e, w') | (Inr x, w') \<Rightarrow> k x w')"

definition lift :: "error + 'a \<Rightarrow> 'a io" where
  "lift r w = (r, w)"

definition perform :: "call \<Rightarrow> (files \<Rightarrow> error + files) \<Rightarrow> unit io" where
  "perform c f w =
     (let w1 = w\<lparr>trace := trace w @ [c]\<rparr>
      in case f (files w1) of
           Inl e \<Rightarrow> (Inl e, w1)
         | Inr fs \<Rightarrow> (Inr (), w1\<lparr>files := fs\<rparr>))"

definition query :: "call \<Rightarrow> (files \<Rightarrow> error + 'a) \<Rightarrow> 'a io" where
  "query c f w = (let w1 = w\<lparr>trace := trace w @ [c]\<rparr> in (f (files w1), w1))"

text \<open>
  \<^verbatim>\<open>new Promise(executor)\<close>: the executor receives the two settling functions;
  \<open>resolve\<close> fulfils the promise with its argument, \<open>reject\<close> rejects it.
\<close>

definition new_Promise ::
  "(('a \<Rightarrow> error + 'a) \<Rightarrow> (error \<Rightarrow> error + 'a) \<Rightarrow> 'a io) \<Rightarrow> 'a io" where
  "new_Promise executor = executor Inr Inl"

text \<open>Calling \<^verbatim>\<open>lineReplace\<close>: the library does its work, then calls \<open>callback\<close> once.\<close>

definition lineReplace_call ::
  "env \<Rightarrow> lineReplace_options \<Rightarrow> (lineReplace_result \<Rightarrow> error + 'a) \<Rightarrow> 'a io" where
  "lineReplace_call c opts callback w =
     (let w1 = w\<lparr>trace := trace w @ [LineReplace opts]\<rparr>
      in case lineReplace c opts (files w1) of
           (r, fs) \<Rightarrow> (callback r, w1\<lparr>files := fs\<rparr>))"

subsection \<open>Utils\<close>

text \<open>\<^verbatim>\<open>Number.prototype.toString(8)\<close> on a non-negative integer.\<close>

definition octal_digit :: "nat \<Rightarrow> char" where
  "octal_digit d = ''01234567'' ! d"

fun toString8 :: "nat \<Rightarrow> string" where
  "toString8 n = (if n < 8 then [octal_digit n] else toString8 (n div 8) @ [octal_digit (n mod 8)])"

declare toString8.simps [simp del]

text \<open>\<^verbatim>\<open>s.slice(-3)\<close>: the last three characters, or all of a shorter string.\<close>

definition slice_last3 :: "string \<Rightarrow> string" where
  "slice_last3 s = drop (length s - 3) s"

definition chmodX :: "env \<Rightarrow> path \<Rightarrow> unit io" where
  "chmodX c filename =
     bind (query (StatSync filename) (statSync c filename)) (\<lambda>s.
       let newMode = mode s OR 64 OR 8 OR 1
       in if mode s = newMode then ret ()
          else let base8 = slice_last3 (toString8 newMode)
               in perform (ChmodSync filename base8) (chmodSync c filename base8))"

definition replaceFirstLine :: "env \<Rightarrow> path \<Rightarrow> string \<Rightarrow> lineReplace_result io" where
  "replaceFirstLine c filename line =
     new_Promise (\<lambda>resolve reject.
       lineReplace_call c
         \<lparr>lr_file = filename, lr_line = 1, lr_text = line, lr_addNewLine = False\<rparr>
         resolve)"

subsection \<open>The lifecycle plugin\<close>

definition prebuild_command :: string where
  "prebuild_command = ''node -r esbuild-register ./helpers/copy-prisma-client.ts''"

definition shebang_line :: string where
  "shebang_line = ''#!/usr/bin/env node'' @ [CHR 0x0A]"

definition onStart :: "env \<Rightarrow> unit io" where
  "onStart c = perform (Run prebuild_command) (run c prebuild_command)"

definition studio_dist :: "path \<Rightarrow> path" where
  "studio_dist pkg = path_join [pkg, ''../dist'']"

definition checkpoint_child :: "path \<Rightarrow> path" where
  "checkpoint_child pkg = path_join [pkg, ''../dist/child.js'']"

definition xdg_open :: "path \<Rightarrow> path" where
  "xdg_open pkg = path_join [pkg, ''../xdg-open'']"

definition wasmResolveDir :: "env \<Rightarrow> path" where
  "wasmResolveDir c = path_join [dirname c, ''..'', ''..'', ''internals'', ''node_modules'']"

definition prismaWasmFile :: "env \<Rightarrow> path" where
  "prismaWasmFile c =
     path_join [wasmResolveDir c, ''@prisma'', ''prisma-schema-wasm'', ''src'',
                ''prisma_schema_build_bg.wasm'']"

definition copy_all :: copy_options where
  "copy_all = \<lparr>recursive = True, overwrite = True\<rparr>"

definition onEnd :: "env \<Rightarrow> unit io" where
  "onEnd c =
     bind (lift (require_resolve c ''@prisma/studio/package.json'')) (\<lambda>studio.
     bind (perform (Copy (studio_dist studio) ''./build/public'' copy_all)
                   (copy c (studio_dist studio) ''./build/public'' copy_all)) (\<lambda>_.
     bind (lift (require_resolve c ''checkpoint-client/package.json'')) (\<lambda>checkpoint.
     bind (perform (CopyFile (checkpoint_child checkpoint) ''./build/child.js'')
                   (copyFile c (checkpoint_child checkpoint) ''./build/child.js'')) (\<lambda>_.
     bind (lift (require_resolve c ''open/package.json'')) (\<lambda>opn.
     bind (perform (CopyFile (xdg_open opn) ''./build/xdg-open'')
                   (copyFile c (xdg_open opn) ''./build/xdg-open'')) (\<lambda>_.
     bind (perform (CopyFile (prismaWasmFile c) ''./build/prisma_schema_build_bg.wasm'')
                   (copyFile c (prismaWasmFile c) ''./build/prisma_schema_build_bg.wasm'')) (\<lambda>_.
     bind (replaceFirstLine c ''./build/index.js'' shebang_line) (\<lambda>_.
     chmodX c ''./build/index.js''))))))))"

text \<open>
  What a plugin's \<^verbatim>\<open>setup\<close> sees of the build: the two option fields the plugins read.
  \<^verbatim>\<open>build.onStart\<close>, \<^verbatim>\<open>build.onEnd\<close> and \<^verbatim>\<open>build.onResolve\<close> register a callback;
  \<^verbatim>\<open>setup\<close> returns the registrations it made, in order.
\<close>

record initialOptions =
  format :: "string option"
  outfile :: "string option"

record resolve_args =
  args_path :: string
  resolveDir :: path

record resolve_result =
  result_path :: string
  result_external :: bool

datatype registration =
    OnStart "unit io"
  | OnEnd "unit io"
  | OnResolve "string \<Rightarrow> bool" "resolve_args \<Rightarrow> resolve_result option"

record plugin =
  plugin_name :: string
  plugin_setup :: "env \<Rightarrow> initialOptions option \<Rightarrow> error + registration list"

definition cliLifecyclePlugin_setup ::
  "env \<Rightarrow> initialOptions option \<Rightarrow> error + registration list" where
  "cliLifecyclePlugin_setup c initial =
     (if (case initial of None \<Rightarrow> None | Some opts \<Rightarrow> format opts) = Some ''esm'' then Inr []
      else Inr [OnStart (onStart c), OnEnd (onEnd c)])"

definition cliLifecyclePlugin :: plugin where
  "cliLifecyclePlugin = \<lparr>plugin_name = ''cliLifecyclePlugin'', plugin_setup = cliLifecyclePlugin_setup\<rparr>"

subsection \<open>The manifest plugin\<close>

text \<open>The filter \<^verbatim>\<open>/package\.json$/\<close>: the specifier ends in \<^verbatim>\<open>package.json\<close>.\<close>

definition package_json_filter :: "string \<Rightarrow> bool" where
  "package_json_filter p = suffix ''package.json'' p"

definition pkgJson :: "env \<Rightarrow> path" where
  "pkgJson c = path_resolve (cwd c) [dirname c, ''..'', ''package.json'']"

definition pkgJsonRelative :: "env \<Rightarrow> string \<Rightarrow> path" where
  "pkgJsonRelative c out =
     (let outfile' = path_resolve (cwd c) [out];
          outdir = path_dirname outfile'
      in path_relative (cwd c) outdir (pkgJson c))"

definition onResolve_callback :: "env \<Rightarrow> string \<Rightarrow> resolve_args \<Rightarrow> resolve_result option" where
  "onResolve_callback c out args =
     (if path_resolve (cwd c) [resolveDir args, args_path args] = pkgJson c
      then Some \<lparr>result_path = pkgJsonRelative c out, result_external = True\<rparr>
      else None)"

definition externalPackageJson_setup ::
  "env \<Rightarrow> initialOptions option \<Rightarrow> error + registration list" where
  "externalPackageJson_setup c initial =
     (case initial of
        None \<Rightarrow> Inl (TypeError ''initialOptions'')
      | Some opts \<Rightarrow>
          (case outfile opts of
             None \<Rightarrow> Inl (TypeError ''outfile'')
           | Some out \<Rightarrow> Inr [OnResolve package_json_filter (onResolve_callback c out)]))"

definition externalPackageJson :: plugin where
  "externalPackageJson = \<lparr>plugin_name = ''externalPackageJson'', plugin_setup = externalPackageJson_setup\<rparr>"

subsection \<open>The build configurations\<close>

record BuildOptions = initialOptions +
  name :: string
  entryPoints :: "string list"
  plugins :: "plugin list option"
  bundle_flag :: "bool option"
  emitTypes :: "bool option"
  minify :: "bool option"
  external :: "string list option"

definition cliBuildConfig :: BuildOptions where
  "cliBuildConfig =
     \<lparr>format = None, outfile = Some ''build/index'',
      name = ''cli'', entryPoints = [''src/bin.ts''],
      plugins = Some [cliLifecyclePlugin, externalPackageJson],
      bundle_flag = Some True, emitTypes = Some False, minify = Some True, external = None\<rparr>"

definition preinstallBuildConfig :: BuildOptions where
  "preinstallBuildConfig =
     \<lparr>format = None, outfile = Some ''preinstall/index'',
      name = ''preinstall'', entryPoints = [''scripts/preinstall.ts''],
      plugins = None,
      bundle_flag = Some True, emitTypes = Some False, minify = Some True, external = None\<rparr>"

definition migrateBuildConfig :: BuildOptions where
  "migrateBuildConfig =
     \<lparr>format = None, outfile = Some ''build/migrate'',
      name = ''migrate'', entryPoints = [''src/migrate/index.ts''],
      plugins = Some [externalPackageJson],
      bundle_flag = Some True, emitTypes = None, minify = None,
      external = Some [''@prisma/engines'']\<rparr>"

text \<open>The list handed to \<^verbatim>\<open>build\<close> on the last line of the configuration part.\<close>

definition build_targets :: "BuildOptions list" where
  "build_targets = [cliBuildConfig, preinstallBuildConfig, migrateBuildConfig]"

subsection \<open>The build runner\<close>

text \<open>
  Modelled from the spec: the function \<^verbatim>\<open>build\<close> of \<^verbatim>\<open>helpers/compile/build\<close> and the
  compiler behind it are not among the sources. The spec's Build Runner takes the targets
  in order; for each target the compiler runs every plugin's \<^verbatim>\<open>setup\<close> on that target's
  options, calls the registered \<^verbatim>\<open>onStart\<close> callbacks before it transforms any source,
  compiles, and calls the \<^verbatim>\<open>onEnd\<close> callbacks after the output is written. Any failure
  is fatal: nothing is caught or retried, and no later target is attempted.
\<close>

fun setup_plugins :: "env \<Rightarrow> initialOptions option \<Rightarrow> plugin list \<Rightarrow> error + registration list" where
  "setup_plugins c initial [] = Inr []"
| "setup_plugins c initial (p # ps) =
     (case plugin_setup p c initial of
        Inl e \<Rightarrow> Inl e
      | Inr rs \<Rightarrow>
          (case setup_plugins c initial ps of
             Inl e \<Rightarrow> Inl e
           | Inr rs' \<Rightarrow> Inr (rs @ rs')))"

text \<open>
  Modelled from the spec: the compiler's resolution interception, not among the sources.
  The callbacks whose filter matches the specifier are asked in order, and the first
  decision wins; \<open>None\<close> leaves the request to the default resolution.
\<close>

fun onResolve_dispatch :: "registration list \<Rightarrow> resolve_args \<Rightarrow> resolve_result option" where
  "onResolve_dispatch [] args = None"
| "onResolve_dispatch (OnResolve flt cb # rs) args =
     (if flt (args_path args) then
        (case cb args of
           Some r \<Rightarrow> Some r
         | None \<Rightarrow> onResolve_dispatch rs args)
      else onResolve_dispatch rs args)"
| "onResolve_dispatch (r # rs) args = onResolve_dispatch rs args"

text \<open>
  Modelled from the spec: how the compiler, not among the sources, calls the hooks it was
  given: those of one kind in the order of their registration, each after the one before
  it has completed, stopping at the first failure.
\<close>

fun start_callbacks :: "registration list \<Rightarrow> unit io list" where
  "start_callbacks [] = []"
| "start_callbacks (OnStart f # rs) = f # start_callbacks rs"
| "start_callbacks (r # rs) = start_callbacks rs"

fun end_callbacks :: "registration list \<Rightarrow> unit io list" where
  "end_callbacks [] = []"
| "end_callbacks (OnEnd f # rs) = f # end_callbacks rs"
| "end_callbacks (r # rs) = end_callbacks rs"

fun run_callbacks :: "unit io list \<Rightarrow> unit io" where
  "run_callbacks [] = ret ()"
| "run_callbacks (f # fs) = bind f (\<lambda>_. run_callbacks fs)"

text \<open>
  Modelled from the spec: the compiler, not among the sources, runs the plugins of a
  target on that target's own options, once for each target.
\<close>

definition registrations :: "env \<Rightarrow> BuildOptions \<Rightarrow> error + registration list" where
  "registrations c t =
     setup_plugins c (Some (initialOptions.truncate t))
       (case plugins t of None \<Rightarrow> [] | Some ps \<Rightarrow> ps)"

text \<open>
  Modelled from the spec: one target of the Build Runner, which is not among the
  sources. \<^verbatim>\<open>onStart\<close> strictly precedes the compilation of the target, which strictly
  precedes \<^verbatim>\<open>onEnd\<close>; the first failure ends the target.
\<close>

definition build_target :: "env \<Rightarrow> BuildOptions \<Rightarrow> unit io" where
  "build_target c t =
     bind (lift (registrations c t)) (\<lambda>regs.
     bind (run_callbacks (start_callbacks regs)) (\<lambda>_.
     bind (perform (Compile (name t)) (compile c (name t))) (\<lambda>_.
     run_callbacks (end_callbacks regs))))"

text \<open>
  Modelled from the spec: the Build Runner \<^verbatim>\<open>build\<close>, which is not among the sources.
  The targets are taken in order and the first failure aborts the remaining ones.
\<close>

fun build :: "env \<Rightarrow> BuildOptions list \<Rightarrow> unit io" where
  "build c [] = ret ()"
| "build c (t # ts) = bind (build_target c t) (\<lambda>_. build c ts)"

subsection \<open>The filesystem collaborators\<close>

text \<open>An octal numeral read as a number, as \<^verbatim>\<open>parseInt(s, 8)\<close> reads it.\<close>

definition octal_value :: "char \<Rightarrow> nat" where
  "octal_value ch = of_char ch - 48"

definition is_octal :: "string \<Rightarrow> bool" where
  "is_octal s = (s \<noteq> [] \<and> list_all (\<lambda>ch. (48::nat) \<le> of_char ch \<and> of_char ch \<le> (55::nat)) s)"

definition parseInt8 :: "string \<Rightarrow> nat" where
  "parseInt8 s = foldl (\<lambda>acc ch. acc * 8 + octal_value ch) 0 s"

text \<open>
  Modelled from the spec: the file-stat of the filesystem collaborator is the host's
  \<^verbatim>\<open>fs.statSync\<close>, not part of the sources. It reports the mode of an existing file
  and fails for a missing one.
\<close>

definition node_statSync :: "path \<Rightarrow> files \<Rightarrow> error + Stats" where
  "node_statSync p fs =
     (case fs p of
        None \<Rightarrow> Inl (ENOENT p)
      | Some f \<Rightarrow> Inr \<lparr>mode = file_mode f\<rparr>)"

text \<open>
  Modelled from the spec: the file-chmod of the filesystem collaborator is the host's
  \<^verbatim>\<open>fs.chmodSync\<close>, not part of the sources. Given a string, it reads the mode as an
  octal numeral and replaces the twelve permission bits of the file (read, write and
  execute for owner, group and other, and the setuid, setgid and sticky bits); the bits
  above them, which say what kind of file it is, stay.
\<close>

definition node_chmodSync :: "path \<Rightarrow> string \<Rightarrow> files \<Rightarrow> error + files" where
  "node_chmodSync p s fs =
     (if \<not> is_octal s then Inl (InvalidArg s)
      else (case fs p of
              None \<Rightarrow> Inl (ENOENT p)
            | Some f \<Rightarrow>
                Inr (fs(p \<mapsto> f\<lparr>file_mode := file_mode f - file_mode f mod 4096 + parseInt8 s mod 4096\<rparr>))))"

text \<open>
  The lines of a file, each with its terminator when it has one; and a line without its
  terminator.
\<close>

definition newline :: char where
  "newline = CHR 0x0A"

fun raw_lines :: "string \<Rightarrow> string list" where
  "raw_lines [] = []"
| "raw_lines (ch # cs) =
     (if ch = newline then [ch] # raw_lines cs
      else (case raw_lines cs of
              [] \<Rightarrow> [[ch]]
            | l # ls \<Rightarrow> (ch # l) # ls))"

definition chomp :: "string \<Rightarrow> string" where
  "chomp l = (if l \<noteq> [] \<and> last l = newline then butlast l else l)"

text \<open>
  Modelled from the spec: the first-line text replacement of the filesystem collaborator
  is the package \<^verbatim>\<open>line-replace\<close>, not part of the sources. The spec has it rewrite one
  line of a file to a given text, append a terminator only when \<^verbatim>\<open>addNewLine\<close> asks for
  one, and keep every other line as it is. So line \<open>n\<close> of the file, terminator
  included, is replaced by the text, which is why the hook passes a text that carries its
  own newline; a file with no line \<open>n\<close> is left alone. Errors are reported through the
  callback object.
\<close>

definition lineReplace_model :: "lineReplace_options \<Rightarrow> files \<Rightarrow> lineReplace_result \<times> files" where
  "lineReplace_model opts fs =
     (case fs (lr_file opts) of
        None \<Rightarrow> (\<lparr>lr_error = Some (ENOENT (lr_file opts)), lr_replacedText = None\<rparr>, fs)
      | Some f \<Rightarrow>
          (let ls = raw_lines (file_content f)
           in if lr_line opts = 0 \<or> length ls < lr_line opts
              then (\<lparr>lr_error = None, lr_replacedText = None\<rparr>, fs)
              else (\<lparr>lr_error = None, lr_replacedText = Some (chomp (ls ! (lr_line opts - 1)))\<rparr>,
                    fs(lr_file opts \<mapsto>
                       f\<lparr>file_content :=
                           concat (ls[lr_line opts - 1 :=
                                       lr_text opts @ (if lr_addNewLine opts then [newline] else [])])\<rparr>))))"

subsection \<open>A sample workspace\<close>

text \<open>
  A small concrete workspace on which the definitions can be run: the package lives in
  \<^verbatim>\<open>/proj/packages/cli\<close>, dependencies resolve under \<^verbatim>\<open>/proj/node_modules\<close>, and the
  compiler has already written \<^verbatim>\<open>./build/index.js\<close> with mode \<^verbatim>\<open>100644\<close> (octal).
\<close>

definition sample_copyFile :: "path \<Rightarrow> path \<Rightarrow> files \<Rightarrow> error + files" where
  "sample_copyFile src dst fs =
     (case fs src of
        None \<Rightarrow> Inl (ENOENT src)
      | Some f \<Rightarrow> Inr (fs(dst \<mapsto> f)))"

definition sample_copy :: "path \<Rightarrow> path \<Rightarrow> copy_options \<Rightarrow> files \<Rightarrow> error + files" where
  "sample_copy src dst opts fs =
     Inr (\<lambda>p. if prefix (dst @ ''/'') p
              then (case fs (src @ drop (length dst) p) of
                      None \<Rightarrow> fs p
                    | Some f \<Rightarrow> Some f)
              else fs p)"

definition sample_resolve :: "string \<Rightarrow> error + path" where
  "sample_resolve s =
     (if s \<in> set [''@prisma/studio/package.json'', ''checkpoint-client/package.json'',
                    ''open/package.json'']
      then Inr (''/proj/node_modules/'' @ s)
      else Inl (ModuleNotFound s))"

definition sample_env :: env where
  "sample_env =
     \<lparr>dirname = ''/proj/packages/cli/helpers'',
      cwd = ''/proj/packages/cli'',
      require_resolve = sample_resolve,
      run = (\<lambda>cmd fs. Inr fs),
      copy = sample_copy,
      copyFile = sample_copyFile,
      lineReplace = lineReplace_model,
      statSync = node_statSync,
      chmodSync = node_chmodSync,
      compile = (\<lambda>n fs. Inr fs)\<rparr>"

definition sample_script :: string where
  "sample_script = ''console.log(1)'' @ [newline] @ ''x=2'' @ [newline]"

definition sample_files :: files where
  "sample_files =
     [''./build/index.js'' \<mapsto> \<lparr>file_content = sample_script, file_mode = 33188\<rparr>,
      ''/proj/node_modules/@prisma/studio/dist/index.html'' \<mapsto>
        \<lparr>file_content = ''<html>'', file_mode = 33188\<rparr>,
      ''/proj/node_modules/checkpoint-client/dist/child.js'' \<mapsto>
        \<lparr>file_content = ''child'', file_mode = 33188\<rparr>,
      ''/proj/node_modules/open/xdg-open'' \<mapsto>
        \<lparr>file_content = ''#!/bin/sh'', file_mode = 33261\<rparr>,
      ''/proj/packages/internals/node_modules/@prisma/prisma-schema-wasm/src/prisma_schema_build_bg.wasm''
        \<mapsto> \<lparr>file_content = ''wasm'', file_mode = 33188\<rparr>]"

definition sample_world :: world where
  "sample_world = \<lparr>files = sample_files, trace = []\<rparr>"

text \<open>
  The calls of the \<^verbatim>\<open>onEnd\<close> hook in the order the spec lists its steps: the copy of
  the studio distribution, of the checkpoint child script, of the xdg-open helper and of
  the wasm module, the rewrite of the first line, and the permission step, which reads
  the mode and then, when a bit is missing, writes it.
\<close>

definition staging_calls :: "env \<Rightarrow> path \<Rightarrow> path \<Rightarrow> path \<Rightarrow> string \<Rightarrow> call list" where
  "staging_calls c studio checkpoint opn base8 =
     [Copy (studio_dist studio) ''./build/public'' copy_all,
      CopyFile (checkpoint_child checkpoint) ''./build/child.js'',
      CopyFile (xdg_open opn) ''./build/xdg-open'',
      CopyFile (prismaWasmFile c) ''./build/prisma_schema_build_bg.wasm'',
      LineReplace \<lparr>lr_file = ''./build/index.js'', lr_line = 1, lr_text = shebang_line,
                   lr_addNewLine = False\<rparr>,
      StatSync ''./build/index.js'',
      ChmodSync ''./build/index.js'' base8]"

text \<open>The sample workspace with a pre-build command that exits non-zero.\<close>

definition prebuild_fails_env :: env where
  "prebuild_fails_env = sample_env\<lparr>run := (\<lambda>cmd fs. Inl (ExitNonZero cmd))\<rparr>"

text \<open>
  The sample workspace with a first-line rewrite that cannot write: the library reports
  the error to its callback and leaves the files as they were.
\<close>

definition rewrite_fails_env :: env where
  "rewrite_fails_env =
     sample_env\<lparr>lineReplace :=
       (\<lambda>opts fs. (\<lparr>lr_error = Some (EACCES (lr_file opts)), lr_replacedText = None\<rparr>, fs))\<rparr>"

text \<open>A world whose only file has mode \<^verbatim>\<open>104644\<close> (octal): a regular file, setuid.\<close>

definition setuid_world :: world where
  "setuid_world =
     \<lparr>files = [''tool'' \<mapsto> \<lparr>file_content = ''x'', file_mode = 35236\<rparr>], trace = []\<rparr>"

section \<open>Properties\<close>

subsection \<open>Laws of sequencing\<close>

lemma bind_ret_left: "bind (ret x) k = k x"
  by (rule ext) (simp add: bind_def ret_def)

lemma bind_ret_right: "bind m ret = m"
  by (rule ext) (simp add: bind_def ret_def split: prod.splits sum.splits)

lemma bind_ret_unit: "bind m (\<lambda>_. ret ()) = (m :: unit io)"
  by (rule ext) (auto simp add: bind_def ret_def split: prod.splits sum.splits)

lemma bind_lift_Inr: "bind (lift (Inr x)) k = k x"
  by (rule ext) (simp add: bind_def lift_def)

lemma bind_lift_Inl: "bind (lift (Inl e)) k = lift (Inl e)"
  by (rule ext) (simp add: bind_def lift_def)

lemma bind_assoc: "bind (bind m k) h = bind m (\<lambda>x. bind (k x) h)"
  by (rule ext) (simp add: bind_def split: prod.splits sum.splits)

text \<open>A successful run of a sequence was a successful run of its first part.\<close>

lemma step_lift:
  "bind (lift r) k w = (Inr u, w') \<Longrightarrow> \<exists>x. r = Inr x \<and> k x w = (Inr u, w')"
  by (cases r) (simp_all add: bind_def lift_def)

lemma step_perform:
  "bind (perform cl f) k w = (Inr u, w') \<Longrightarrow>
   \<exists>fs. f (files w) = Inr fs \<and> k () (w\<lparr>trace := trace w @ [cl], files := fs\<rparr>) = (Inr u, w')"
  by (cases "f (files w)") (simp_all add: bind_def perform_def Let_def)

lemma step_replaceFirstLine:
  "bind (replaceFirstLine c filename line) k w = (Inr u, w') \<Longrightarrow>
   \<exists>r fs. lineReplace c \<lparr>lr_file = filename, lr_line = 1, lr_text = line,
                           lr_addNewLine = False\<rparr> (files w) = (r, fs)
     \<and> k r (w\<lparr>trace := trace w @ [LineReplace \<lparr>lr_file = filename, lr_line = 1,
                                     lr_text = line, lr_addNewLine = False\<rparr>],
              files := fs\<rparr>) = (Inr u, w')"
  by (cases "lineReplace c \<lparr>lr_file = filename, lr_line = 1, lr_text = line,
                            lr_addNewLine = False\<rparr> (files w)")
     (simp add: bind_def replaceFirstLine_def new_Promise_def lineReplace_call_def Let_def)

lemma build_append: "build c (xs @ ys) = bind (build c xs) (\<lambda>_. build c ys)"
  by (induction xs) (simp_all add: bind_ret_left bind_assoc)

subsection \<open>The build configurations\<close>

text \<open>
  C8: the batch passed to the build runner consists of exactly three target descriptors,
  \<^verbatim>\<open>cli\<close> with output path \<^verbatim>\<open>build/index\<close>, \<^verbatim>\<open>preinstall\<close> with output path
  \<^verbatim>\<open>preinstall/index\<close>, and \<^verbatim>\<open>migrate\<close> with output path \<^verbatim>\<open>build/migrate\<close> and the forced
  external \<^verbatim>\<open>@prisma/engines\<close>; the output paths in the batch are pairwise distinct.
\<close>

theorem build_targets_three_distinct:
  "build_targets = [cliBuildConfig, preinstallBuildConfig, migrateBuildConfig]
   \<and> map name build_targets = [''cli'', ''preinstall'', ''migrate'']
   \<and> map outfile build_targets =
       [Some ''build/index'', Some ''preinstall/index'', Some ''build/migrate'']
   \<and> external migrateBuildConfig = Some [''@prisma/engines'']
   \<and> distinct (map outfile build_targets)"
  by (simp add: build_targets_def cliBuildConfig_def preinstallBuildConfig_def
      migrateBuildConfig_def)

subsection \<open>The guard of the lifecycle plugin\<close>

text \<open>
  C10: when \<^verbatim>\<open>setup\<close> of the lifecycle plugin is invoked with no \<^verbatim>\<open>initialOptions\<close>
  object, or with options whose \<^verbatim>\<open>format\<close> field is absent, both hooks are registered
  exactly as for a target of another format; nothing is registered only when the format
  is exactly the string \<^verbatim>\<open>esm\<close>.
\<close>

theorem lifecycle_setup_without_format:
  "cliLifecyclePlugin_setup c None = Inr [OnStart (onStart c), OnEnd (onEnd c)]
   \<and> cliLifecyclePlugin_setup c (Some (opts\<lparr>format := None\<rparr>))
       = Inr [OnStart (onStart c), OnEnd (onEnd c)]
   \<and> cliLifecyclePlugin_setup c (Some (opts\<lparr>format := Some ''cjs''\<rparr>))
       = Inr [OnStart (onStart c), OnEnd (onEnd c)]
   \<and> (cliLifecyclePlugin_setup c initial = Inr []
        \<longleftrightarrow> (\<exists>o'. initial = Some o' \<and> format o' = Some ''esm''))"
  by (auto simp add: cliLifecyclePlugin_setup_def split: option.splits)

text \<open>
  C2: for every target whose format is \<^verbatim>\<open>esm\<close> the lifecycle plugin registers neither
  an \<^verbatim>\<open>onStart\<close> nor an \<^verbatim>\<open>onEnd\<close> callback; a batch holding a \<^verbatim>\<open>cjs\<close> and an \<^verbatim>\<open>esm\<close>
  descriptor of the same entry point therefore runs the hooks once, around the first
  compilation, and the second compilation runs bare.
\<close>

theorem lifecycle_esm_registers_nothing:
  "cliLifecyclePlugin_setup c (Some (opts\<lparr>format := Some ''esm''\<rparr>)) = Inr []
   \<and> registrations c (t\<lparr>format := Some ''esm'', plugins := Some [cliLifecyclePlugin]\<rparr>) = Inr []
   \<and> registrations c (t\<lparr>format := Some ''cjs'', plugins := Some [cliLifecyclePlugin]\<rparr>)
       = Inr [OnStart (onStart c), OnEnd (onEnd c)]
   \<and> build c [t\<lparr>format := Some ''cjs'', plugins := Some [cliLifecyclePlugin]\<rparr>,
               t\<lparr>format := Some ''esm'', plugins := Some [cliLifecyclePlugin]\<rparr>]
       = bind (onStart c) (\<lambda>_.
         bind (perform (Compile (name t)) (compile c (name t))) (\<lambda>_.
         bind (onEnd c) (\<lambda>_.
         perform (Compile (name t)) (compile c (name t)))))"
  by (simp add: cliLifecyclePlugin_setup_def registrations_def cliLifecyclePlugin_def
      initialOptions.truncate_def build_target_def bind_lift_Inr bind_ret_left
      bind_ret_unit bind_ret_right bind_assoc)

subsection \<open>The manifest plugin\<close>

text \<open>
  C1: for every resolution request whose specifier matches the filter
  \<^verbatim>\<open>/package\.json$/\<close>, the override resolves the absolute path from the request's
  \<^verbatim>\<open>resolveDir\<close> and specifier; when that path equals the package's own manifest path it
  answers with the path of the manifest relative to the output directory and
  \<^verbatim>\<open>external: true\<close>, and when it does not (although the specifier matches the filter)
  it gives no decision, so the default resolution applies.
\<close>

theorem externalPackageJson_resolution:
  "externalPackageJson_setup c (Some (opts\<lparr>outfile := Some out\<rparr>))
     = Inr [OnResolve package_json_filter (onResolve_callback c out)]
   \<and> (package_json_filter (args_path args) \<longrightarrow>
        onResolve_dispatch [OnResolve package_json_filter (onResolve_callback c out)] args
          = (if path_resolve (cwd c) [resolveDir args, args_path args]
                = path_resolve (cwd c) [dirname c, ''..'', ''package.json'']
             then Some \<lparr>result_path =
                          path_relative (cwd c) (path_dirname (path_resolve (cwd c) [out]))
                            (path_resolve (cwd c) [dirname c, ''..'', ''package.json'']),
                        result_external = True\<rparr>
             else None))"
  by (simp add: externalPackageJson_setup_def onResolve_callback_def pkgJson_def
      pkgJsonRelative_def)

text \<open>
  In the sample workspace the manifest is \<^verbatim>\<open>/proj/packages/cli/package.json\<close>: a request
  for \<^verbatim>\<open>../package.json\<close> from \<^verbatim>\<open>src\<close> is redirected to \<^verbatim>\<open>../package.json\<close> as seen from
  \<^verbatim>\<open>build\<close>; a request for a dependency's manifest is left alone.
\<close>

theorem externalPackageJson_resolution_witness:
  "package_json_filter ''../package.json''
   \<and> package_json_filter ''other-pkg/package.json''
   \<and> onResolve_dispatch
        [OnResolve package_json_filter (onResolve_callback sample_env ''build/index'')]
        \<lparr>args_path = ''../package.json'', resolveDir = ''/proj/packages/cli/src''\<rparr>
       = Some \<lparr>result_path = ''../package.json'', result_external = True\<rparr>
   \<and> onResolve_dispatch
        [OnResolve package_json_filter (onResolve_callback sample_env ''build/index'')]
        \<lparr>args_path = ''other-pkg/package.json'', resolveDir = ''/proj/packages/cli/src''\<rparr>
       = None"
proof -
  have f1: "package_json_filter ''../package.json''"
    by (simp add: package_json_filter_def suffix_def)
  have f2: "package_json_filter ''other-pkg/package.json''"
    by (simp add: package_json_filter_def suffix_def)
  note a = externalPackageJson_resolution [where c = sample_env and out = "''build/index''"
      and args = "\<lparr>args_path = ''../package.json'', resolveDir = ''/proj/packages/cli/src''\<rparr>"]
  note b = externalPackageJson_resolution [where c = sample_env and out = "''build/index''"
      and args = "\<lparr>args_path = ''other-pkg/package.json'',
                   resolveDir = ''/proj/packages/cli/src''\<rparr>"]
  have r1: "path_resolve ''/proj/packages/cli'' [''/proj/packages/cli/src'', ''../package.json'']
      = ''/proj/packages/cli/package.json''"
    by (simp add: path_resolve_def isAbsolute_def)
  have r2: "path_resolve ''/proj/packages/cli''
        [''/proj/packages/cli/src'', ''other-pkg/package.json'']
      = ''/proj/packages/cli/src/other-pkg/package.json''"
    by (simp add: path_resolve_def isAbsolute_def)
  have r3: "path_resolve ''/proj/packages/cli''
        [''/proj/packages/cli/helpers'', ''..'', ''package.json'']
      = ''/proj/packages/cli/package.json''"
    by (simp add: path_resolve_def isAbsolute_def)
  have r4: "path_resolve ''/proj/packages/cli'' [''build/index'']
      = ''/proj/packages/cli/build/index''"
    by (simp add: path_resolve_def isAbsolute_def)
  have r5: "path_dirname ''/proj/packages/cli/build/index'' = ''/proj/packages/cli/build''"
    by (simp add: path_dirname_def isAbsolute_def)
  have r6: "path_relative ''/proj/packages/cli'' ''/proj/packages/cli/build''
        ''/proj/packages/cli/package.json'' = ''../package.json''"
    by (simp add: path_relative_def path_resolve_def isAbsolute_def pieces_def)
  show ?thesis
    using a b f1 f2 by (simp add: sample_env_def r1 r2 r3 r4 r5 r6)
qed

subsection \<open>Rewriting the first line\<close>









subsection \<open>The permission step\<close>

text \<open>What \<open>chmodX\<close> does, by the outcome of its calls.\<close>

lemma chmodX_unfold:
  "chmodX c filename w =
     (case statSync c filename (files w) of
        Inl e \<Rightarrow> (Inl e, w\<lparr>trace := trace w @ [StatSync filename]\<rparr>)
      | Inr s \<Rightarrow>
          if mode s OR 64 OR 8 OR 1 = mode s
          then (Inr (), w\<lparr>trace := trace w @ [StatSync filename]\<rparr>)
          else (case chmodSync c filename (slice_last3 (toString8 (mode s OR 64 OR 8 OR 1))) (files w) of
                  Inl e \<Rightarrow> (Inl e, w\<lparr>trace := trace w @ [StatSync filename,
                              ChmodSync filename (slice_last3 (toString8 (mode s OR 64 OR 8 OR 1)))]\<rparr>)
                | Inr fs \<Rightarrow> (Inr (), w\<lparr>trace := trace w @ [StatSync filename,
                              ChmodSync filename (slice_last3 (toString8 (mode s OR 64 OR 8 OR 1)))],
                              files := fs\<rparr>)))"
proof (cases "statSync c filename (files w)")
  case (Inl e)
  then show ?thesis by (simp add: chmodX_def bind_def query_def)
next
  case (Inr s)
  show ?thesis
  proof (cases "mode s OR 64 OR 8 OR 1 = mode s")
    case True
    with Inr show ?thesis
      by (simp add: chmodX_def bind_def query_def ret_def Let_def)
  next
    case False
    then have "mode s \<noteq> mode s OR 64 OR 8 OR 1" by (rule not_sym)
    then show ?thesis using Inr False
      by (simp add: chmodX_def bind_def query_def perform_def Let_def split: sum.splits)
  qed
qed

lemma toString8_snoc: "8 \<le> n \<Longrightarrow> toString8 n = toString8 (n div 8) @ [octal_digit (n mod 8)]"
  by (subst toString8.simps) simp

lemma toString8_last: "\<exists>xs. toString8 n = xs @ [octal_digit (n mod 8)]"
  by (subst toString8.simps) (auto intro: exI [of _ "[]"])

lemma slice_last3_toString8:
  assumes "64 \<le> n"
  shows "slice_last3 (toString8 n)
           = [octal_digit (n div 64 mod 8), octal_digit (n div 8 mod 8), octal_digit (n mod 8)]"
proof -
  from assms have a: "toString8 n = toString8 (n div 8) @ [octal_digit (n mod 8)]"
    by (intro toString8_snoc) simp
  from assms have "8 \<le> n div 8" by simp
  then have b: "toString8 (n div 8) = toString8 (n div 8 div 8) @ [octal_digit (n div 8 mod 8)]"
    by (rule toString8_snoc)
  have d: "n div 8 div 8 = n div 64" by (simp add: div_mult2_eq [symmetric])
  obtain xs where c: "toString8 (n div 64) = xs @ [octal_digit (n div 64 mod 8)]"
    using toString8_last by blast
  have "toString8 n = xs @ [octal_digit (n div 64 mod 8), octal_digit (n div 8 mod 8), octal_digit (n mod 8)]"
    by (simp add: a b d c)
  then show ?thesis
    by (simp add: slice_last3_def)
qed

lemma mod_8_le_7: "(n::nat) mod 8 \<le> 7"
proof -
  have "n mod 8 < 8" by simp
  then show ?thesis by linarith
qed

lemma le_7_cases:
  "(d::nat) \<le> 7 \<Longrightarrow> d = 0 \<or> d = 1 \<or> d = 2 \<or> d = 3 \<or> d = 4 \<or> d = 5 \<or> d = 6 \<or> d = 7"
  by linarith

lemma of_char_octal_digit: "d \<le> 7 \<Longrightarrow> (of_char (octal_digit d) :: nat) = 48 + d"
  by (drule le_7_cases) (auto simp add: octal_digit_def)

lemma octal_value_digit: "d \<le> 7 \<Longrightarrow> octal_value (octal_digit d) = d"
  by (simp add: octal_value_def of_char_octal_digit)

lemma octal_three_digits: "(n::nat) div 64 mod 8 * 64 + n div 8 mod 8 * 8 + n mod 8 = n mod 512"
proof -
  have "n mod 512 = n mod (8 * 64)" by simp
  also have "\<dots> = 8 * (n div 8 mod 64) + n mod 8" by (rule mod_mult2_eq)
  also have "n div 8 mod 64 = n div 8 mod (8 * 8)" by simp
  also have "\<dots> = 8 * (n div 8 div 8 mod 8) + n div 8 mod 8" by (rule mod_mult2_eq)
  also have "n div 8 div 8 = n div 64" by (simp add: div_mult2_eq [symmetric])
  finally show ?thesis by simp
qed

lemma parseInt8_three:
  "parseInt8 [octal_digit (n div 64 mod 8), octal_digit (n div 8 mod 8), octal_digit (n mod 8)]
     = n mod 512"
proof -
  have "parseInt8 [octal_digit (n div 64 mod 8), octal_digit (n div 8 mod 8), octal_digit (n mod 8)]
      = n div 64 mod 8 * 64 + n div 8 mod 8 * 8 + n mod 8"
    by (simp add: parseInt8_def octal_value_digit mod_8_le_7)
  then show ?thesis by (simp only: octal_three_digits)
qed

lemma is_octal_three:
  "is_octal [octal_digit (n div 64 mod 8), octal_digit (n div 8 mod 8), octal_digit (n mod 8)]"
  by (simp add: is_octal_def of_char_octal_digit mod_8_le_7)

lemma nat_le_or: "(k::nat) \<le> k OR l"
proof -
  have "int k \<le> int k OR int l" by (rule or_greater_eq) simp
  then have "int k \<le> int (k OR l)" by (simp add: of_nat_or_eq)
  then show ?thesis by simp
qed

lemma or_73_ge: "64 \<le> (m::nat) OR 64 OR 8 OR 1"
proof -
  have "(64::nat) \<le> 64 OR (m OR 8 OR 1)" by (rule nat_le_or)
  also have "\<dots> = m OR 64 OR 8 OR 1" by (simp add: ac_simps)
  finally show ?thesis .
qed

lemma mod_512_or: "((m::nat) OR 64 OR 8 OR 1) mod 512 = m mod 512 OR 64 OR 8 OR 1"
proof -
  have "take_bit 9 (m OR 64 OR 8 OR 1) = take_bit 9 m OR take_bit 9 (64 OR 8 OR 1 :: nat)"
    by (simp only: take_bit_or)
  then show ?thesis by (simp add: take_bit_eq_mod)
qed

lemma chmod_no_special_bits:
  assumes "(m::nat) mod 4096 < 512"
  shows "m - m mod 4096 + (m OR 64 OR 8 OR 1) mod 512 = m OR 64 OR 8 OR 1"
proof -
  let ?x = "m OR 64 OR 8 OR 1"
  have "drop_bit 12 ?x = drop_bit 12 m OR drop_bit 12 (64 OR 8 OR 1 :: nat)"
    by (rule drop_bit_or)
  also have "drop_bit 12 (64 OR 8 OR 1 :: nat) = 0"
    by (simp add: drop_bit_eq_div)
  finally have d: "drop_bit 12 ?x = drop_bit 12 m" by simp
  have "m mod 4096 mod 512 = m mod 512"
    by (rule mod_mod_cancel) simp
  with assms have r: "m mod 512 = m mod 4096" by simp
  have "take_bit 12 ?x = take_bit 12 m OR take_bit 12 (64 OR 8 OR 1 :: nat)"
    by (rule take_bit_or)
  then have "take_bit 12 ?x = m mod 4096 OR 64 OR 8 OR 1"
    by (simp add: take_bit_eq_mod)
  also have "\<dots> = ?x mod 512"
    by (simp only: mod_512_or r)
  finally have t: "take_bit 12 ?x = ?x mod 512" .
  have p: "push_bit 12 (drop_bit 12 m) = m - m mod 4096"
    by (simp add: push_bit_eq_mult drop_bit_eq_div minus_mod_eq_div_mult [symmetric])
  have "?x = push_bit 12 (drop_bit 12 ?x) + take_bit 12 ?x"
    by (simp only: bits_ident)
  also have "\<dots> = m - m mod 4096 + ?x mod 512"
    by (simp only: d t p)
  finally show ?thesis by (rule sym)
qed

lemma chmodSync_written_mode:
  assumes "fs filename = Some f"
  shows "node_chmodSync filename (slice_last3 (toString8 (m OR 64 OR 8 OR 1))) fs
    = Inr (fs(filename \<mapsto> f\<lparr>file_mode := file_mode f - file_mode f mod 4096
                                      + (m OR 64 OR 8 OR 1) mod 512\<rparr>))"
proof -
  have lt: "(m OR 64 OR 8 OR 1) mod 512 mod 4096 = (m OR 64 OR 8 OR 1) mod 512"
    by (rule mod_less) (rule less_trans [OF mod_less_divisor], simp_all)
  show ?thesis
    using assms
    by (simp only: slice_last3_toString8 [OF or_73_ge] node_chmodSync_def is_octal_three
        parseInt8_three lt not_True_eq_False if_False option.case)
qed

lemma chmodX_node:
  assumes "statSync c = node_statSync" and "chmodSync c = node_chmodSync"
    and "files w filename = Some f"
  shows "chmodX c filename w =
     (if file_mode f OR 64 OR 8 OR 1 = file_mode f
      then (Inr (), w\<lparr>trace := trace w @ [StatSync filename]\<rparr>)
      else (Inr (), w\<lparr>trace := trace w @ [StatSync filename,
                 ChmodSync filename (slice_last3 (toString8 (file_mode f OR 64 OR 8 OR 1)))],
               files := (files w)(filename \<mapsto>
                  f\<lparr>file_mode := file_mode f - file_mode f mod 4096
                                   + (file_mode f OR 64 OR 8 OR 1) mod 512\<rparr>)\<rparr>))"
proof -
  have st: "statSync c filename (files w) = Inr \<lparr>mode = file_mode f\<rparr>"
    using assms by (simp add: node_statSync_def)
  show ?thesis
  proof (cases "file_mode f OR 64 OR 8 OR 1 = file_mode f")
    case True
    show ?thesis
      by (simp only: chmodX_unfold st sum.case Stats.select_convs True if_True refl)
  next
    case False
    note cw = chmodSync_written_mode [where fs = "files w" and filename = filename and f = f
        and m = "file_mode f", OF assms(3)]
    show ?thesis
      by (simp only: chmodX_unfold st sum.case Stats.select_convs False if_False assms(2) cw)
  qed
qed

lemma sample_env_node:
  "statSync sample_env = node_statSync" "chmodSync sample_env = node_chmodSync"
  "lineReplace sample_env = lineReplace_model"
  by (simp_all add: sample_env_def)

lemma slice_755: "slice_last3 (toString8 33261) = ''755''"
  by (simp add: slice_last3_toString8 octal_digit_def)

text \<open>
  C6, as amended: for every existing file the permission step succeeds. When the three
  execute bits are already set it only reads the mode: no write is performed. Otherwise
  it writes the last three octal digits of the mode with the execute bits added: the
  nine read, write and execute bits are kept and the execute bits set, the bits that say
  what kind of file it is stay, and the setuid, setgid and sticky bits are cleared. For
  a file with none of those three set, the new mode is the old one with the execute bits
  added and every other bit untouched.
\<close>

theorem chmodX_adds_execute:
  assumes "statSync c = node_statSync" and "chmodSync c = node_chmodSync"
    and "files w filename = Some f"
  shows "chmodX c filename w =
     (if file_mode f OR 64 OR 8 OR 1 = file_mode f
      then (Inr (), w\<lparr>trace := trace w @ [StatSync filename]\<rparr>)
      else (Inr (), w\<lparr>trace := trace w @ [StatSync filename,
                 ChmodSync filename (slice_last3 (toString8 (file_mode f OR 64 OR 8 OR 1)))],
               files := (files w)(filename \<mapsto>
                  f\<lparr>file_mode := file_mode f - file_mode f mod 4096
                                   + (file_mode f OR 64 OR 8 OR 1) mod 512\<rparr>)\<rparr>))
   \<and> (file_mode f mod 4096 < 512 \<longrightarrow>
        file_mode f - file_mode f mod 4096 + (file_mode f OR 64 OR 8 OR 1) mod 512
          = file_mode f OR 64 OR 8 OR 1)"
  using chmodX_node [OF assms] chmod_no_special_bits [of "file_mode f"] by blast

text \<open>
  The compiled script of the sample workspace goes from \<^verbatim>\<open>644\<close> to \<^verbatim>\<open>755\<close>; the helper
  that is already at \<^verbatim>\<open>755\<close> is read and not written.
\<close>

theorem chmodX_adds_execute_witness:
  "statSync sample_env = node_statSync \<and> chmodSync sample_env = node_chmodSync
   \<and> files sample_world ''./build/index.js''
       = Some \<lparr>file_content = sample_script, file_mode = 33188\<rparr>
   \<and> (33188::nat) mod 4096 < 512
   \<and> chmodX sample_env ''./build/index.js'' sample_world
       = (Inr (), sample_world\<lparr>trace := [StatSync ''./build/index.js'',
                                           ChmodSync ''./build/index.js'' ''755''],
             files := (files sample_world)(''./build/index.js'' \<mapsto>
                \<lparr>file_content = sample_script, file_mode = 33261\<rparr>)\<rparr>)
   \<and> files sample_world ''/proj/node_modules/open/xdg-open''
       = Some \<lparr>file_content = ''#!/bin/sh'', file_mode = 33261\<rparr>
   \<and> chmodX sample_env ''/proj/node_modules/open/xdg-open'' sample_world
       = (Inr (), sample_world\<lparr>trace := [StatSync ''/proj/node_modules/open/xdg-open'']\<rparr>)"
proof -
  have f1: "files sample_world ''./build/index.js''
       = Some \<lparr>file_content = sample_script, file_mode = 33188\<rparr>"
    by (simp add: sample_world_def sample_files_def)
  have f2: "files sample_world ''/proj/node_modules/open/xdg-open''
       = Some \<lparr>file_content = ''#!/bin/sh'', file_mode = 33261\<rparr>"
    by (simp add: sample_world_def sample_files_def)
  have t: "trace sample_world = []" by (simp add: sample_world_def)
  note a = chmodX_adds_execute [OF sample_env_node(1) sample_env_node(2) f1]
  note b = chmodX_adds_execute [OF sample_env_node(1) sample_env_node(2) f2]
  show ?thesis
    using a b f1 f2 by (simp add: sample_env_node t slice_755)
qed

text \<open>
  A setuid file at \<^verbatim>\<open>104644\<close> would be at \<^verbatim>\<open>104755\<close> (35309) with the execute bits added
  and nothing else touched; the permission step leaves it at \<^verbatim>\<open>100755\<close> (33261).
\<close>

theorem chmodX_clears_setuid:
  "files setuid_world ''tool'' = Some \<lparr>file_content = ''x'', file_mode = 35236\<rparr>
   \<and> (35236::nat) OR 64 OR 8 OR 1 = 35309
   \<and> files (snd (chmodX sample_env ''tool'' setuid_world)) ''tool''
       = Some \<lparr>file_content = ''x'', file_mode = 33261\<rparr>
   \<and> files (snd (chmodX sample_env ''tool'' setuid_world)) ''tool''
       \<noteq> Some \<lparr>file_content = ''x'', file_mode = 35236 OR 64 OR 8 OR 1\<rparr>"
proof -
  have f: "files setuid_world ''tool'' = Some \<lparr>file_content = ''x'', file_mode = 35236\<rparr>"
    by (simp add: setuid_world_def)
  show ?thesis
    using chmodX_node [OF sample_env_node(1) sample_env_node(2) f] f by simp
qed

subsection \<open>The staging hook\<close>

lemma chmodX_InrD:
  assumes "chmodX c filename w = (Inr u, w')"
  shows "\<exists>s. statSync c filename (files w) = Inr s
     \<and> (if mode s OR 64 OR 8 OR 1 = mode s
         then files w' = files w \<and> trace w' = trace w @ [StatSync filename]
         else chmodSync c filename (slice_last3 (toString8 (mode s OR 64 OR 8 OR 1))) (files w)
                = Inr (files w')
            \<and> trace w' = trace w @ [StatSync filename,
                 ChmodSync filename (slice_last3 (toString8 (mode s OR 64 OR 8 OR 1)))])"
proof (cases "statSync c filename (files w)")
  case (Inl e)
  with assms show ?thesis by (simp add: chmodX_unfold)
next
  case (Inr s)
  show ?thesis
  proof (cases "mode s OR 64 OR 8 OR 1 = mode s")
    case True
    with assms Inr show ?thesis by (auto simp add: chmodX_unfold)
  next
    case False
    with assms Inr show ?thesis by (auto simp add: chmodX_unfold split: sum.splits)
  qed
qed

text \<open>
  Up to the permission step the hook is determined by the outcomes of its calls; the
  object the rewrite hands back plays no part.
\<close>

lemma onEnd_until_permission:
  assumes "require_resolve c ''@prisma/studio/package.json'' = Inr studio"
    and "require_resolve c ''checkpoint-client/package.json'' = Inr checkpoint"
    and "require_resolve c ''open/package.json'' = Inr opn"
    and "copy c (studio_dist studio) ''./build/public'' copy_all (files w) = Inr fa"
    and "copyFile c (checkpoint_child checkpoint) ''./build/child.js'' fa = Inr fb"
    and "copyFile c (xdg_open opn) ''./build/xdg-open'' fb = Inr fc"
    and "copyFile c (prismaWasmFile c) ''./build/prisma_schema_build_bg.wasm'' fc = Inr fd"
    and "lineReplace c \<lparr>lr_file = ''./build/index.js'', lr_line = 1, lr_text = shebang_line,
                   lr_addNewLine = False\<rparr> fd = (r, fe)"
  shows "onEnd c w = chmodX c ''./build/index.js''
           (w\<lparr>trace := trace w @ take 5 (staging_calls c studio checkpoint opn []),
              files := fe\<rparr>)"
  using assms
  by (simp add: onEnd_def bind_def lift_def perform_def replaceFirstLine_def new_Promise_def
      lineReplace_call_def Let_def staging_calls_def)

text \<open>A copy that fails ends the hook with its error, and nothing is called after it.\<close>

lemma onEnd_studio_copy_fails:
  assumes "require_resolve c ''@prisma/studio/package.json'' = Inr studio"
    and "copy c (studio_dist studio) ''./build/public'' copy_all (files w) = Inl e"
  shows "onEnd c w
    = (Inl e, w\<lparr>trace := trace w @ take 1 (staging_calls c studio checkpoint opn [])\<rparr>)"
  using assms
  by (simp add: onEnd_def bind_def lift_def perform_def Let_def staging_calls_def)

lemma onEnd_child_copy_fails:
  assumes "require_resolve c ''@prisma/studio/package.json'' = Inr studio"
    and "require_resolve c ''checkpoint-client/package.json'' = Inr checkpoint"
    and "copy c (studio_dist studio) ''./build/public'' copy_all (files w) = Inr fa"
    and "copyFile c (checkpoint_child checkpoint) ''./build/child.js'' fa = Inl e"
  shows "onEnd c w
    = (Inl e, w\<lparr>trace := trace w @ take 2 (staging_calls c studio checkpoint opn []),
                files := fa\<rparr>)"
  using assms
  by (simp add: onEnd_def bind_def lift_def perform_def Let_def staging_calls_def)

lemma onEnd_xdg_copy_fails:
  assumes "require_resolve c ''@prisma/studio/package.json'' = Inr studio"
    and "require_resolve c ''checkpoint-client/package.json'' = Inr checkpoint"
    and "require_resolve c ''open/package.json'' = Inr opn"
    and "copy c (studio_dist studio) ''./build/public'' copy_all (files w) = Inr fa"
    and "copyFile c (checkpoint_child checkpoint) ''./build/child.js'' fa = Inr fb"
    and "copyFile c (xdg_open opn) ''./build/xdg-open'' fb = Inl e"
  shows "onEnd c w
    = (Inl e, w\<lparr>trace := trace w @ take 3 (staging_calls c studio checkpoint opn []),
                files := fb\<rparr>)"
  using assms
  by (simp add: onEnd_def bind_def lift_def perform_def Let_def staging_calls_def)

lemma onEnd_wasm_copy_fails:
  assumes "require_resolve c ''@prisma/studio/package.json'' = Inr studio"
    and "require_resolve c ''checkpoint-client/package.json'' = Inr checkpoint"
    and "require_resolve c ''open/package.json'' = Inr opn"
    and "copy c (studio_dist studio) ''./build/public'' copy_all (files w) = Inr fa"
    and "copyFile c (checkpoint_child checkpoint) ''./build/child.js'' fa = Inr fb"
    and "copyFile c (xdg_open opn) ''./build/xdg-open'' fb = Inr fc"
    and "copyFile c (prismaWasmFile c) ''./build/prisma_schema_build_bg.wasm'' fc = Inl e"
  shows "onEnd c w
    = (Inl e, w\<lparr>trace := trace w @ take 4 (staging_calls c studio checkpoint opn []),
                files := fc\<rparr>)"
  using assms
  by (simp add: onEnd_def bind_def lift_def perform_def Let_def staging_calls_def)

lemma onEnd_prefix:
  "\<exists>studio checkpoint opn base8 new.
      trace (snd (onEnd c w)) = trace w @ new
      \<and> prefix new (staging_calls c studio checkpoint opn base8)"
  unfolding onEnd_def staging_calls_def bind_def lift_def perform_def replaceFirstLine_def
    new_Promise_def lineReplace_call_def chmodX_def query_def ret_def Let_def
  by (auto split: sum.splits prod.splits if_splits)

text \<open>A successful run of the hook, step by step.\<close>

lemma onEnd_chain:
  assumes "onEnd c w = (Inr u, w')"
  shows "\<exists>studio checkpoint opn fa fb fc fd r fe s.
      require_resolve c ''@prisma/studio/package.json'' = Inr studio
    \<and> require_resolve c ''checkpoint-client/package.json'' = Inr checkpoint
    \<and> require_resolve c ''open/package.json'' = Inr opn
    \<and> copy c (studio_dist studio) ''./build/public'' copy_all (files w) = Inr fa
    \<and> copyFile c (checkpoint_child checkpoint) ''./build/child.js'' fa = Inr fb
    \<and> copyFile c (xdg_open opn) ''./build/xdg-open'' fb = Inr fc
    \<and> copyFile c (prismaWasmFile c) ''./build/prisma_schema_build_bg.wasm'' fc = Inr fd
    \<and> lineReplace c \<lparr>lr_file = ''./build/index.js'', lr_line = 1, lr_text = shebang_line,
                   lr_addNewLine = False\<rparr> fd = (r, fe)
    \<and> statSync c ''./build/index.js'' fe = Inr s
    \<and> (if mode s OR 64 OR 8 OR 1 = mode s
        then files w' = fe
           \<and> trace w' = trace w @ butlast (staging_calls c studio checkpoint opn [])
        else chmodSync c ''./build/index.js'' (slice_last3 (toString8 (mode s OR 64 OR 8 OR 1))) fe
               = Inr (files w')
           \<and> trace w' = trace w @ staging_calls c studio checkpoint opn
                                   (slice_last3 (toString8 (mode s OR 64 OR 8 OR 1))))"
proof -
  note k0 = assms [unfolded onEnd_def]
  from step_lift [OF k0] obtain studio where
    s0: "require_resolve c ''@prisma/studio/package.json'' = Inr studio" and
    k1: "bind (perform (Copy (studio_dist studio) ''./build/public'' copy_all)
                   (copy c (studio_dist studio) ''./build/public'' copy_all)) (\<lambda>_.
     bind (lift (require_resolve c ''checkpoint-client/package.json'')) (\<lambda>checkpoint.
     bind (perform (CopyFile (checkpoint_child checkpoint) ''./build/child.js'')
                   (copyFile c (checkpoint_child checkpoint) ''./build/child.js'')) (\<lambda>_.
     bind (lift (require_resolve c ''open/package.json'')) (\<lambda>opn.
     bind (perform (CopyFile (xdg_open opn) ''./build/xdg-open'')
                   (copyFile c (xdg_open opn) ''./build/xdg-open'')) (\<lambda>_.
     bind (perform (CopyFile (prismaWasmFile c) ''./build/prisma_schema_build_bg.wasm'')
                   (copyFile c (prismaWasmFile c) ''./build/prisma_schema_build_bg.wasm'')) (\<lambda>_.
     bind (replaceFirstLine c ''./build/index.js'' shebang_line) (\<lambda>_.
     chmodX c ''./build/index.js''))))))) w = (Inr u, w')"
    by (elim exE conjE)
  from step_perform [OF k1] obtain fa where
    s1: "copy c (studio_dist studio) ''./build/public'' copy_all (files w) = Inr fa" and
    k2: "bind (lift (require_resolve c ''checkpoint-client/package.json'')) (\<lambda>checkpoint.
     bind (perform (CopyFile (checkpoint_child checkpoint) ''./build/child.js'')
                   (copyFile c (checkpoint_child checkpoint) ''./build/child.js'')) (\<lambda>_.
     bind (lift (require_resolve c ''open/package.json'')) (\<lambda>opn.
     bind (perform (CopyFile (xdg_open opn) ''./build/xdg-open'')
                   (copyFile c (xdg_open opn) ''./build/xdg-open'')) (\<lambda>_.
     bind (perform (CopyFile (prismaWasmFile c) ''./build/prisma_schema_build_bg.wasm'')
                   (copyFile c (prismaWasmFile c) ''./build/prisma_schema_build_bg.wasm'')) (\<lambda>_.
     bind (replaceFirstLine c ''./build/index.js'' shebang_line) (\<lambda>_.
     chmodX c ''./build/index.js''))))))
       (w\<lparr>trace := trace w @ [Copy (studio_dist studio) ''./build/public'' copy_all], files := fa\<rparr>)
       = (Inr u, w')"
    by (elim exE conjE)
  from step_lift [OF k2] obtain checkpoint where
    s2: "require_resolve c ''checkpoint-client/package.json'' = Inr checkpoint" and
    k3: "bind (perform (CopyFile (checkpoint_child checkpoint) ''./build/child.js'')
                   (copyFile c (checkpoint_child checkpoint) ''./build/child.js'')) (\<lambda>_.
     bind (lift (require_resolve c ''open/package.json'')) (\<lambda>opn.
     bind (perform (CopyFile (xdg_open opn) ''./build/xdg-open'')
                   (copyFile c (xdg_open opn) ''./build/xdg-open'')) (\<lambda>_.
     bind (perform (CopyFile (prismaWasmFile c) ''./build/prisma_schema_build_bg.wasm'')
                   (copyFile c (prismaWasmFile c) ''./build/prisma_schema_build_bg.wasm'')) (\<lambda>_.
     bind (replaceFirstLine c ''./build/index.js'' shebang_line) (\<lambda>_.
     chmodX c ''./build/index.js'')))))
       (w\<lparr>trace := trace w @ [Copy (studio_dist studio) ''./build/public'' copy_all], files := fa\<rparr>)
       = (Inr u, w')"
    by (elim exE conjE)
  from step_perform [OF k3] obtain fb where
    s3: "copyFile c (checkpoint_child checkpoint) ''./build/child.js'' fa = Inr fb" and
    k4: "bind (lift (require_resolve c ''open/package.json'')) (\<lambda>opn.
     bind (perform (CopyFile (xdg_open opn) ''./build/xdg-open'')
                   (copyFile c (xdg_open opn) ''./build/xdg-open'')) (\<lambda>_.
     bind (perform (CopyFile (prismaWasmFile c) ''./build/prisma_schema_build_bg.wasm'')
                   (copyFile c (prismaWasmFile c) ''./build/prisma_schema_build_bg.wasm'')) (\<lambda>_.
     bind (replaceFirstLine c ''./build/index.js'' shebang_line) (\<lambda>_.
     chmodX c ''./build/index.js''))))
       (w\<lparr>trace := trace w @ [Copy (studio_dist studio) ''./build/public'' copy_all,
                                 CopyFile (checkpoint_child checkpoint) ''./build/child.js''],
          files := fb\<rparr>)
       = (Inr u, w')"
    by (elim exE conjE) simp
  from step_lift [OF k4] obtain opn where
    s4: "require_resolve c ''open/package.json'' = Inr opn" and
    k5: "bind (perform (CopyFile (xdg_open opn) ''./build/xdg-open'')
                   (copyFile c (xdg_open opn) ''./build/xdg-open'')) (\<lambda>_.
     bind (perform (CopyFile (prismaWasmFile c) ''./build/prisma_schema_build_bg.wasm'')
                   (copyFile c (prismaWasmFile c) ''./build/prisma_schema_build_bg.wasm'')) (\<lambda>_.
     bind (replaceFirstLine c ''./build/index.js'' shebang_line) (\<lambda>_.
     chmodX c ''./build/index.js'')))
       (w\<lparr>trace := trace w @ [Copy (studio_dist studio) ''./build/public'' copy_all,
                                 CopyFile (checkpoint_child checkpoint) ''./build/child.js''],
          files := fb\<rparr>)
       = (Inr u, w')"
    by (elim exE conjE)
  from step_perform [OF k5] obtain fc where
    s5: "copyFile c (xdg_open opn) ''./build/xdg-open'' fb = Inr fc" and
    k6: "bind (perform (CopyFile (prismaWasmFile c) ''./build/prisma_schema_build_bg.wasm'')
                   (copyFile c (prismaWasmFile c) ''./build/prisma_schema_build_bg.wasm'')) (\<lambda>_.
     bind (replaceFirstLine c ''./build/index.js'' shebang_line) (\<lambda>_.
     chmodX c ''./build/index.js''))
       (w\<lparr>trace := trace w @ [Copy (studio_dist studio) ''./build/public'' copy_all,
                                 CopyFile (checkpoint_child checkpoint) ''./build/child.js'',
                                 CopyFile (xdg_open opn) ''./build/xdg-open''],
          files := fc\<rparr>)
       = (Inr u, w')"
    by (elim exE conjE) simp
  from step_perform [OF k6] obtain fd where
    s6: "copyFile c (prismaWasmFile c) ''./build/prisma_schema_build_bg.wasm'' fc = Inr fd" and
    k7: "bind (replaceFirstLine c ''./build/index.js'' shebang_line) (\<lambda>_.
     chmodX c ''./build/index.js'')
       (w\<lparr>trace := trace w @ [Copy (studio_dist studio) ''./build/public'' copy_all,
                                 CopyFile (checkpoint_child checkpoint) ''./build/child.js'',
                                 CopyFile (xdg_open opn) ''./build/xdg-open'',
                                 CopyFile (prismaWasmFile c) ''./build/prisma_schema_build_bg.wasm''],
          files := fd\<rparr>)
       = (Inr u, w')"
    by (elim exE conjE) simp
  from step_replaceFirstLine [OF k7] obtain r fe where
    s7: "lineReplace c \<lparr>lr_file = ''./build/index.js'', lr_line = 1, lr_text = shebang_line,
                   lr_addNewLine = False\<rparr> fd = (r, fe)" and
    k8: "chmodX c ''./build/index.js''
       (w\<lparr>trace := trace w @ take 5 (staging_calls c studio checkpoint opn []), files := fe\<rparr>)
       = (Inr u, w')"
    by (elim exE conjE) (simp add: staging_calls_def)
  let ?wr = "w\<lparr>trace := trace w @ take 5 (staging_calls c studio checkpoint opn []), files := fe\<rparr>"
  from chmodX_InrD [OF k8] obtain s where
    s8': "statSync c ''./build/index.js'' (files ?wr) = Inr s" and
    fin: "if mode s OR 64 OR 8 OR 1 = mode s
         then files w' = files ?wr \<and> trace w' = trace ?wr @ [StatSync ''./build/index.js'']
         else chmodSync c ''./build/index.js'' (slice_last3 (toString8 (mode s OR 64 OR 8 OR 1))) (files ?wr) = Inr (files w')
            \<and> trace w' = trace ?wr @ [StatSync ''./build/index.js'',
                 ChmodSync ''./build/index.js'' (slice_last3 (toString8 (mode s OR 64 OR 8 OR 1)))]"
    by (elim exE conjE)
  from s8' have s8: "statSync c ''./build/index.js'' fe = Inr s" by simp
  have "if mode s OR 64 OR 8 OR 1 = mode s
        then files w' = fe
           \<and> trace w' = trace w @ butlast (staging_calls c studio checkpoint opn [])
        else chmodSync c ''./build/index.js'' (slice_last3 (toString8 (mode s OR 64 OR 8 OR 1))) fe
               = Inr (files w')
           \<and> trace w' = trace w @ staging_calls c studio checkpoint opn
                                   (slice_last3 (toString8 (mode s OR 64 OR 8 OR 1)))"
  proof (cases "mode s OR 64 OR 8 OR 1 = mode s")
    case True
    with fin show ?thesis by (simp add: staging_calls_def)
  next
    case False
    with fin show ?thesis by (simp add: staging_calls_def)
  qed
  with s0 s1 s2 s3 s4 s5 s6 s7 s8 show ?thesis by blast
qed

text \<open>
  C3: whenever the \<^verbatim>\<open>onEnd\<close> hook runs, the calls it makes are an initial part of the
  listed order: the recursive copy of the studio distribution into the public directory
  of the output, the copy of the checkpoint child script, the copy of the xdg-open
  helper, the copy of the wasm module, the rewrite of the first line of the output file,
  and the permission step. When the hook succeeds it has made all of them, and each
  step has run on the files the step before it left behind: a step begins only when the
  one before it is complete.
\<close>

theorem onEnd_steps_in_order:
  "(\<exists>studio checkpoint opn base8 new.
      trace (snd (onEnd c w)) = trace w @ new
      \<and> prefix new (staging_calls c studio checkpoint opn base8))
   \<and> (onEnd c w = (Inr u, w') \<longrightarrow>
       (\<exists>studio checkpoint opn fa fb fc fd r fe s.
          require_resolve c ''@prisma/studio/package.json'' = Inr studio
        \<and> require_resolve c ''checkpoint-client/package.json'' = Inr checkpoint
        \<and> require_resolve c ''open/package.json'' = Inr opn
        \<and> copy c (studio_dist studio) ''./build/public'' copy_all (files w) = Inr fa
        \<and> copyFile c (checkpoint_child checkpoint) ''./build/child.js'' fa = Inr fb
        \<and> copyFile c (xdg_open opn) ''./build/xdg-open'' fb = Inr fc
        \<and> copyFile c (prismaWasmFile c) ''./build/prisma_schema_build_bg.wasm'' fc = Inr fd
        \<and> lineReplace c \<lparr>lr_file = ''./build/index.js'', lr_line = 1, lr_text = shebang_line,
                       lr_addNewLine = False\<rparr> fd = (r, fe)
        \<and> statSync c ''./build/index.js'' fe = Inr s
        \<and> (if mode s OR 64 OR 8 OR 1 = mode s
            then files w' = fe
               \<and> trace w' = trace w @ butlast (staging_calls c studio checkpoint opn [])
            else chmodSync c ''./build/index.js''
                   (slice_last3 (toString8 (mode s OR 64 OR 8 OR 1))) fe = Inr (files w')
               \<and> trace w' = trace w @ staging_calls c studio checkpoint opn
                                       (slice_last3 (toString8 (mode s OR 64 OR 8 OR 1))))))"
  using onEnd_prefix [of c w] onEnd_chain [of c w u w'] by blast

text \<open>The hook on the sample workspace, whatever the rewrite does.\<close>

lemma sample_paths:
  "studio_dist ''/proj/node_modules/@prisma/studio/package.json''
     = ''/proj/node_modules/@prisma/studio/dist''"
  "checkpoint_child ''/proj/node_modules/checkpoint-client/package.json''
     = ''/proj/node_modules/checkpoint-client/dist/child.js''"
  "xdg_open ''/proj/node_modules/open/package.json'' = ''/proj/node_modules/open/xdg-open''"
  "dirname c = ''/proj/packages/cli/helpers'' \<Longrightarrow> prismaWasmFile c
     = ''/proj/packages/internals/node_modules/@prisma/prisma-schema-wasm/src/prisma_schema_build_bg.wasm''"
  by (simp_all add: studio_dist_def checkpoint_child_def xdg_open_def prismaWasmFile_def
      wasmResolveDir_def path_join_def path_normalize_def isAbsolute_def)

lemma sample_resolves:
  "sample_resolve ''@prisma/studio/package.json''
     = Inr ''/proj/node_modules/@prisma/studio/package.json''"
  "sample_resolve ''checkpoint-client/package.json''
     = Inr ''/proj/node_modules/checkpoint-client/package.json''"
  "sample_resolve ''open/package.json'' = Inr ''/proj/node_modules/open/package.json''"
  by (simp_all add: sample_resolve_def)

lemma sample_copies:
  "\<exists>fa fb fc fd.
     sample_copy ''/proj/node_modules/@prisma/studio/dist'' ''./build/public'' copy_all
       sample_files = Inr fa
   \<and> sample_copyFile ''/proj/node_modules/checkpoint-client/dist/child.js''
       ''./build/child.js'' fa = Inr fb
   \<and> sample_copyFile ''/proj/node_modules/open/xdg-open'' ''./build/xdg-open'' fb = Inr fc
   \<and> sample_copyFile
       ''/proj/packages/internals/node_modules/@prisma/prisma-schema-wasm/src/prisma_schema_build_bg.wasm''
       ''./build/prisma_schema_build_bg.wasm'' fc = Inr fd
   \<and> fd ''./build/index.js'' = Some \<lparr>file_content = sample_script, file_mode = 33188\<rparr>"
  by (simp add: sample_copy_def sample_copyFile_def sample_files_def)

lemma sample_staging:
  assumes "require_resolve c = sample_resolve" and "copy c = sample_copy"
    and "copyFile c = sample_copyFile" and "dirname c = ''/proj/packages/cli/helpers''"
    and "files w = sample_files"
  shows "\<exists>fd. fd ''./build/index.js'' = Some \<lparr>file_content = sample_script, file_mode = 33188\<rparr>
    \<and> (\<forall>r fe. lineReplace c \<lparr>lr_file = ''./build/index.js'', lr_line = 1,
                   lr_text = shebang_line, lr_addNewLine = False\<rparr> fd = (r, fe) \<longrightarrow>
          onEnd c w = chmodX c ''./build/index.js''
            (w\<lparr>trace := trace w @ take 5 (staging_calls c
                   ''/proj/node_modules/@prisma/studio/package.json''
                   ''/proj/node_modules/checkpoint-client/package.json''
                   ''/proj/node_modules/open/package.json'' []),
               files := fe\<rparr>))"
proof -
  from sample_copies obtain fa fb fc fd where
    c1: "sample_copy ''/proj/node_modules/@prisma/studio/dist'' ''./build/public'' copy_all
       sample_files = Inr fa"
    and c2: "sample_copyFile ''/proj/node_modules/checkpoint-client/dist/child.js''
       ''./build/child.js'' fa = Inr fb"
    and c3: "sample_copyFile ''/proj/node_modules/open/xdg-open'' ''./build/xdg-open'' fb = Inr fc"
    and c4: "sample_copyFile
       ''/proj/packages/internals/node_modules/@prisma/prisma-schema-wasm/src/prisma_schema_build_bg.wasm''
       ''./build/prisma_schema_build_bg.wasm'' fc = Inr fd"
    and ix: "fd ''./build/index.js'' = Some \<lparr>file_content = sample_script, file_mode = 33188\<rparr>"
    by blast
  have r1: "require_resolve c ''@prisma/studio/package.json''
      = Inr ''/proj/node_modules/@prisma/studio/package.json''"
    and r2: "require_resolve c ''checkpoint-client/package.json''
      = Inr ''/proj/node_modules/checkpoint-client/package.json''"
    and r3: "require_resolve c ''open/package.json''
      = Inr ''/proj/node_modules/open/package.json''"
    by (simp_all add: assms(1) sample_resolves)
  have d1: "copy c (studio_dist ''/proj/node_modules/@prisma/studio/package.json'')
      ''./build/public'' copy_all (files w) = Inr fa"
    using c1 by (simp add: sample_paths assms)
  have d2: "copyFile c (checkpoint_child ''/proj/node_modules/checkpoint-client/package.json'')
      ''./build/child.js'' fa = Inr fb"
    using c2 by (simp add: sample_paths assms)
  have d3: "copyFile c (xdg_open ''/proj/node_modules/open/package.json'')
      ''./build/xdg-open'' fb = Inr fc"
    using c3 by (simp add: sample_paths assms)
  have d4: "copyFile c (prismaWasmFile c) ''./build/prisma_schema_build_bg.wasm'' fc = Inr fd"
    using c4 by (simp add: sample_paths(4) [OF assms(4)] assms(3))
  have "onEnd c w = chmodX c ''./build/index.js''
            (w\<lparr>trace := trace w @ take 5 (staging_calls c
                   ''/proj/node_modules/@prisma/studio/package.json''
                   ''/proj/node_modules/checkpoint-client/package.json''
                   ''/proj/node_modules/open/package.json'' []),
               files := fe\<rparr>)"
    if "lineReplace c \<lparr>lr_file = ''./build/index.js'', lr_line = 1,
                   lr_text = shebang_line, lr_addNewLine = False\<rparr> fd = (r, fe)" for r fe
    by (rule onEnd_until_permission [OF r1 r2 r3 d1 d2 d3 d4 that])
  with ix show ?thesis by blast
qed

lemma sample_rewrite:
  assumes "fd ''./build/index.js'' = Some \<lparr>file_content = sample_script, file_mode = 33188\<rparr>"
  shows "lineReplace_model \<lparr>lr_file = ''./build/index.js'', lr_line = 1, lr_text = shebang_line,
                   lr_addNewLine = False\<rparr> fd
     = (\<lparr>lr_error = None, lr_replacedText = Some ''console.log(1)''\<rparr>,
        fd(''./build/index.js'' \<mapsto>
             \<lparr>file_content = shebang_line @ ''x=2'' @ [newline], file_mode = 33188\<rparr>))"
  using assms
  by (simp add: lineReplace_model_def sample_script_def chomp_def newline_def)

lemma sample_env_fields:
  "require_resolve sample_env = sample_resolve" "copy sample_env = sample_copy"
  "copyFile sample_env = sample_copyFile" "dirname sample_env = ''/proj/packages/cli/helpers''"
  "run sample_env = (\<lambda>cmd fs. Inr fs)" "compile sample_env = (\<lambda>n fs. Inr fs)"
  by (simp_all add: sample_env_def)

lemma rewrite_fails_env_fields:
  "require_resolve rewrite_fails_env = sample_resolve" "copy rewrite_fails_env = sample_copy"
  "copyFile rewrite_fails_env = sample_copyFile"
  "dirname rewrite_fails_env = ''/proj/packages/cli/helpers''"
  "statSync rewrite_fails_env = node_statSync" "chmodSync rewrite_fails_env = node_chmodSync"
  "run rewrite_fails_env = (\<lambda>cmd fs. Inr fs)" "compile rewrite_fails_env = (\<lambda>n fs. Inr fs)"
  "lineReplace rewrite_fails_env opts fs
     = (\<lparr>lr_error = Some (EACCES (lr_file opts)), lr_replacedText = None\<rparr>, fs)"
  by (simp_all add: rewrite_fails_env_def sample_env_def)

lemma sample_onEnd:
  assumes "files w = sample_files"
  shows "\<exists>fs. onEnd sample_env w =
       (Inr (), w\<lparr>trace := trace w @ staging_calls sample_env
                     ''/proj/node_modules/@prisma/studio/package.json''
                     ''/proj/node_modules/checkpoint-client/package.json''
                     ''/proj/node_modules/open/package.json'' ''755'',
                  files := fs\<rparr>)
     \<and> fs ''./build/index.js''
         = Some \<lparr>file_content = shebang_line @ ''x=2'' @ [newline], file_mode = 33261\<rparr>"
proof -
  from sample_staging [OF sample_env_fields(1-4) assms] obtain fd where
    ix: "fd ''./build/index.js'' = Some \<lparr>file_content = sample_script, file_mode = 33188\<rparr>"
    and st: "\<And>r fe. lineReplace sample_env \<lparr>lr_file = ''./build/index.js'', lr_line = 1,
                   lr_text = shebang_line, lr_addNewLine = False\<rparr> fd = (r, fe) \<Longrightarrow>
          onEnd sample_env w = chmodX sample_env ''./build/index.js''
            (w\<lparr>trace := trace w @ take 5 (staging_calls sample_env
                   ''/proj/node_modules/@prisma/studio/package.json''
                   ''/proj/node_modules/checkpoint-client/package.json''
                   ''/proj/node_modules/open/package.json'' []),
               files := fe\<rparr>)"
    by blast
  let ?fe = "fd(''./build/index.js'' \<mapsto>
             \<lparr>file_content = shebang_line @ ''x=2'' @ [newline], file_mode = 33188\<rparr>)"
  let ?wr = "w\<lparr>trace := trace w @ take 5 (staging_calls sample_env
                   ''/proj/node_modules/@prisma/studio/package.json''
                   ''/proj/node_modules/checkpoint-client/package.json''
                   ''/proj/node_modules/open/package.json'' []),
               files := ?fe\<rparr>"
  have "lineReplace sample_env \<lparr>lr_file = ''./build/index.js'', lr_line = 1,
      lr_text = shebang_line, lr_addNewLine = False\<rparr> fd
     = (\<lparr>lr_error = None, lr_replacedText = Some ''console.log(1)''\<rparr>, ?fe)"
    using sample_rewrite [where fd = fd, OF ix] by (simp add: sample_env_node)
  then have a: "onEnd sample_env w = chmodX sample_env ''./build/index.js'' ?wr"
    by (rule st)
  have i: "files ?wr ''./build/index.js''
      = Some \<lparr>file_content = shebang_line @ ''x=2'' @ [newline], file_mode = 33188\<rparr>"
    by simp
  note b = chmodX_node [where c = sample_env and w = ?wr and filename = "''./build/index.js''"
      and f = "\<lparr>file_content = shebang_line @ ''x=2'' @ [newline], file_mode = 33188\<rparr>",
      OF sample_env_node(1) sample_env_node(2) i]
  have e: "onEnd sample_env w =
      (Inr (), ?wr\<lparr>trace := trace ?wr @ [StatSync ''./build/index.js'',
                                            ChmodSync ''./build/index.js'' ''755''],
                   files := (files ?wr)(''./build/index.js'' \<mapsto>
                      \<lparr>file_content = shebang_line @ ''x=2'' @ [newline],
                       file_mode = 33261\<rparr>)\<rparr>)"
    unfolding a b by (simp add: slice_755)
  show ?thesis
    unfolding e by (rule exI [of _ "?fe(''./build/index.js'' \<mapsto>
                      \<lparr>file_content = shebang_line @ ''x=2'' @ [newline],
                       file_mode = 33261\<rparr>)"]) (simp add: staging_calls_def)
qed

lemma failed_rewrite_onEnd:
  assumes "files w = sample_files"
  shows "\<exists>fs. onEnd rewrite_fails_env w =
       (Inr (), w\<lparr>trace := trace w @ staging_calls rewrite_fails_env
                     ''/proj/node_modules/@prisma/studio/package.json''
                     ''/proj/node_modules/checkpoint-client/package.json''
                     ''/proj/node_modules/open/package.json'' ''755'',
                  files := fs\<rparr>)
     \<and> fs ''./build/index.js'' = Some \<lparr>file_content = sample_script, file_mode = 33261\<rparr>"
proof -
  from sample_staging [OF rewrite_fails_env_fields(1-4) assms] obtain fd where
    ix: "fd ''./build/index.js'' = Some \<lparr>file_content = sample_script, file_mode = 33188\<rparr>"
    and st: "\<And>r fe. lineReplace rewrite_fails_env \<lparr>lr_file = ''./build/index.js'', lr_line = 1,
                   lr_text = shebang_line, lr_addNewLine = False\<rparr> fd = (r, fe) \<Longrightarrow>
          onEnd rewrite_fails_env w = chmodX rewrite_fails_env ''./build/index.js''
            (w\<lparr>trace := trace w @ take 5 (staging_calls rewrite_fails_env
                   ''/proj/node_modules/@prisma/studio/package.json''
                   ''/proj/node_modules/checkpoint-client/package.json''
                   ''/proj/node_modules/open/package.json'' []),
               files := fe\<rparr>)"
    by blast
  let ?wr = "w\<lparr>trace := trace w @ take 5 (staging_calls rewrite_fails_env
                   ''/proj/node_modules/@prisma/studio/package.json''
                   ''/proj/node_modules/checkpoint-client/package.json''
                   ''/proj/node_modules/open/package.json'' []),
               files := fd\<rparr>"
  have a: "onEnd rewrite_fails_env w = chmodX rewrite_fails_env ''./build/index.js'' ?wr"
    by (rule st) (rule rewrite_fails_env_fields(9))
  have i: "files ?wr ''./build/index.js''
      = Some \<lparr>file_content = sample_script, file_mode = 33188\<rparr>"
    using ix by simp
  note b = chmodX_node [where c = rewrite_fails_env and w = ?wr
      and filename = "''./build/index.js''"
      and f = "\<lparr>file_content = sample_script, file_mode = 33188\<rparr>",
      OF rewrite_fails_env_fields(5) rewrite_fails_env_fields(6) i]
  have e: "onEnd rewrite_fails_env w =
      (Inr (), ?wr\<lparr>trace := trace ?wr @ [StatSync ''./build/index.js'',
                                            ChmodSync ''./build/index.js'' ''755''],
                   files := (files ?wr)(''./build/index.js'' \<mapsto>
                      \<lparr>file_content = sample_script, file_mode = 33261\<rparr>)\<rparr>)"
    unfolding a b by (simp add: slice_755)
  show ?thesis
    unfolding e by (rule exI [of _ "fd(''./build/index.js'' \<mapsto>
                      \<lparr>file_content = sample_script, file_mode = 33261\<rparr>)"])
      (simp add: staging_calls_def)
qed

lemma registrations_cli:
  "fmt \<noteq> Some ''esm'' \<Longrightarrow>
   registrations c (cliBuildConfig\<lparr>format := fmt\<rparr>)
     = Inr [OnStart (onStart c), OnEnd (onEnd c),
            OnResolve package_json_filter (onResolve_callback c ''build/index'')]"
  by (simp add: registrations_def cliBuildConfig_def initialOptions.truncate_def
      cliLifecyclePlugin_def externalPackageJson_def cliLifecyclePlugin_setup_def
      externalPackageJson_setup_def)

lemma build_target_cli:
  "fmt \<noteq> Some ''esm'' \<Longrightarrow>
   build_target c (cliBuildConfig\<lparr>format := fmt\<rparr>)
     = bind (onStart c) (\<lambda>_.
       bind (perform (Compile ''cli'') (compile c ''cli'')) (\<lambda>_. onEnd c))"
  by (simp add: build_target_def registrations_cli bind_lift_Inr bind_ret_unit bind_ret_right
      bind_assoc) (simp add: cliBuildConfig_def)

lemma build_target_preinstall:
  "build_target c preinstallBuildConfig
     = perform (Compile ''preinstall'') (compile c ''preinstall'')"
  by (simp add: build_target_def registrations_def preinstallBuildConfig_def bind_lift_Inr
      bind_ret_left bind_ret_right)

lemma build_target_migrate:
  "build_target c migrateBuildConfig = perform (Compile ''migrate'') (compile c ''migrate'')"
  by (simp add: build_target_def registrations_def migrateBuildConfig_def bind_lift_Inr
      bind_ret_left bind_ret_right initialOptions.truncate_def externalPackageJson_def
      externalPackageJson_setup_def)

lemma cliBuildConfig_format: "cliBuildConfig\<lparr>format := None\<rparr> = cliBuildConfig"
  by (simp add: cliBuildConfig_def)

lemma build_build_targets:
  "build c build_targets
     = bind (onStart c) (\<lambda>_.
       bind (perform (Compile ''cli'') (compile c ''cli'')) (\<lambda>_.
       bind (onEnd c) (\<lambda>_.
       bind (perform (Compile ''preinstall'') (compile c ''preinstall'')) (\<lambda>_.
       perform (Compile ''migrate'') (compile c ''migrate'')))))"
  using build_target_cli [of None c]
  by (simp add: build_targets_def cliBuildConfig_format build_target_preinstall
      build_target_migrate bind_assoc bind_ret_unit bind_ret_right)

text \<open>
  On the sample workspace the hook succeeds, and its calls are the seven of the listed
  order.
\<close>

theorem onEnd_steps_in_order_witness:
  "onEnd sample_env sample_world = (Inr (), snd (onEnd sample_env sample_world))
   \<and> (\<exists>studio checkpoint opn fa fb fc fd r fe s.
          require_resolve sample_env ''@prisma/studio/package.json'' = Inr studio
        \<and> require_resolve sample_env ''checkpoint-client/package.json'' = Inr checkpoint
        \<and> require_resolve sample_env ''open/package.json'' = Inr opn
        \<and> copy sample_env (studio_dist studio) ''./build/public'' copy_all
            (files sample_world) = Inr fa
        \<and> copyFile sample_env (checkpoint_child checkpoint) ''./build/child.js'' fa = Inr fb
        \<and> copyFile sample_env (xdg_open opn) ''./build/xdg-open'' fb = Inr fc
        \<and> copyFile sample_env (prismaWasmFile sample_env)
            ''./build/prisma_schema_build_bg.wasm'' fc = Inr fd
        \<and> lineReplace sample_env \<lparr>lr_file = ''./build/index.js'', lr_line = 1,
              lr_text = shebang_line, lr_addNewLine = False\<rparr> fd = (r, fe)
        \<and> statSync sample_env ''./build/index.js'' fe = Inr s
        \<and> (if mode s OR 64 OR 8 OR 1 = mode s
            then files (snd (onEnd sample_env sample_world)) = fe
               \<and> trace (snd (onEnd sample_env sample_world))
                   = trace sample_world @ butlast (staging_calls sample_env studio checkpoint opn [])
            else chmodSync sample_env ''./build/index.js''
                   (slice_last3 (toString8 (mode s OR 64 OR 8 OR 1))) fe
                   = Inr (files (snd (onEnd sample_env sample_world)))
               \<and> trace (snd (onEnd sample_env sample_world))
                   = trace sample_world @ staging_calls sample_env studio checkpoint opn
                       (slice_last3 (toString8 (mode s OR 64 OR 8 OR 1)))))
   \<and> trace (snd (onEnd sample_env sample_world))
       = [Copy ''/proj/node_modules/@prisma/studio/dist'' ''./build/public'' copy_all,
          CopyFile ''/proj/node_modules/checkpoint-client/dist/child.js'' ''./build/child.js'',
          CopyFile ''/proj/node_modules/open/xdg-open'' ''./build/xdg-open'',
          CopyFile
            ''/proj/packages/internals/node_modules/@prisma/prisma-schema-wasm/src/prisma_schema_build_bg.wasm''
            ''./build/prisma_schema_build_bg.wasm'',
          LineReplace \<lparr>lr_file = ''./build/index.js'', lr_line = 1, lr_text = shebang_line,
                       lr_addNewLine = False\<rparr>,
          StatSync ''./build/index.js'',
          ChmodSync ''./build/index.js'' ''755'']"
proof -
  have fw: "files sample_world = sample_files" and tw: "trace sample_world = []"
    by (simp_all add: sample_world_def)
  from sample_onEnd [OF fw] obtain fs where
    e: "onEnd sample_env sample_world =
       (Inr (), sample_world\<lparr>trace := trace sample_world @ staging_calls sample_env
                     ''/proj/node_modules/@prisma/studio/package.json''
                     ''/proj/node_modules/checkpoint-client/package.json''
                     ''/proj/node_modules/open/package.json'' ''755'',
                  files := fs\<rparr>)"
    by blast
  then have h: "onEnd sample_env sample_world = (Inr (), snd (onEnd sample_env sample_world))"
    by simp
  note c = onEnd_steps_in_order [of sample_env sample_world "()"
      "snd (onEnd sample_env sample_world)", THEN conjunct2, THEN mp, OF h]
  have t: "trace (snd (onEnd sample_env sample_world))
       = [Copy ''/proj/node_modules/@prisma/studio/dist'' ''./build/public'' copy_all,
          CopyFile ''/proj/node_modules/checkpoint-client/dist/child.js'' ''./build/child.js'',
          CopyFile ''/proj/node_modules/open/xdg-open'' ''./build/xdg-open'',
          CopyFile
            ''/proj/packages/internals/node_modules/@prisma/prisma-schema-wasm/src/prisma_schema_build_bg.wasm''
            ''./build/prisma_schema_build_bg.wasm'',
          LineReplace \<lparr>lr_file = ''./build/index.js'', lr_line = 1, lr_text = shebang_line,
                       lr_addNewLine = False\<rparr>,
          StatSync ''./build/index.js'',
          ChmodSync ''./build/index.js'' ''755'']"
    unfolding e
    by (simp add: tw staging_calls_def sample_paths(1-3)
        sample_paths(4) [OF sample_env_fields(4)])
  from h c t show ?thesis by (intro conjI)
qed

text \<open>
  C4, at an input where the code departs from it: in the sample workspace the rewrite of
  the first line fails, and the library says so to its callback. The hook goes on to the
  permission step all the same, reads and writes the mode of a file whose first line was
  not rewritten, and ends without an error; the whole run over the three targets ends
  without an error too.
\<close>

theorem onEnd_goes_on_after_failed_rewrite:
  "lr_error (fst (lineReplace rewrite_fails_env
       \<lparr>lr_file = ''./build/index.js'', lr_line = 1, lr_text = shebang_line,
        lr_addNewLine = False\<rparr> sample_files)) = Some (EACCES ''./build/index.js'')
   \<and> fst (onEnd rewrite_fails_env sample_world) = Inr ()
   \<and> trace (snd (onEnd rewrite_fails_env sample_world))
       = [Copy ''/proj/node_modules/@prisma/studio/dist'' ''./build/public'' copy_all,
          CopyFile ''/proj/node_modules/checkpoint-client/dist/child.js'' ''./build/child.js'',
          CopyFile ''/proj/node_modules/open/xdg-open'' ''./build/xdg-open'',
          CopyFile
            ''/proj/packages/internals/node_modules/@prisma/prisma-schema-wasm/src/prisma_schema_build_bg.wasm''
            ''./build/prisma_schema_build_bg.wasm'',
          LineReplace \<lparr>lr_file = ''./build/index.js'', lr_line = 1, lr_text = shebang_line,
                       lr_addNewLine = False\<rparr>,
          StatSync ''./build/index.js'',
          ChmodSync ''./build/index.js'' ''755'']
   \<and> files (snd (onEnd rewrite_fails_env sample_world)) ''./build/index.js''
       = Some \<lparr>file_content = sample_script, file_mode = 33261\<rparr>
   \<and> fst (build rewrite_fails_env build_targets sample_world) = Inr ()"
proof -
  have fw: "files sample_world = sample_files" and tw: "trace sample_world = []"
    by (simp_all add: sample_world_def)
  from failed_rewrite_onEnd [OF fw] obtain fs where
    e: "onEnd rewrite_fails_env sample_world =
       (Inr (), sample_world\<lparr>trace := trace sample_world @ staging_calls rewrite_fails_env
                     ''/proj/node_modules/@prisma/studio/package.json''
                     ''/proj/node_modules/checkpoint-client/package.json''
                     ''/proj/node_modules/open/package.json'' ''755'',
                  files := fs\<rparr>)"
    and ix: "fs ''./build/index.js'' = Some \<lparr>file_content = sample_script, file_mode = 33261\<rparr>"
    by blast
  let ?w1 = "sample_world\<lparr>trace := trace sample_world @ [Run prebuild_command],
                          files := files sample_world\<rparr>
               \<lparr>trace := trace (sample_world\<lparr>trace := trace sample_world @ [Run prebuild_command],
                          files := files sample_world\<rparr>) @ [Compile ''cli''],
                 files := files sample_world\<rparr>"
  have f1: "files ?w1 = sample_files" by (simp add: fw)
  from failed_rewrite_onEnd [OF f1] obtain fs' where
    e': "onEnd rewrite_fails_env ?w1 =
       (Inr (), ?w1\<lparr>trace := trace ?w1 @ staging_calls rewrite_fails_env
                     ''/proj/node_modules/@prisma/studio/package.json''
                     ''/proj/node_modules/checkpoint-client/package.json''
                     ''/proj/node_modules/open/package.json'' ''755'',
                  files := fs'\<rparr>)"
    by blast
  have b: "fst (build rewrite_fails_env build_targets sample_world) = Inr ()"
    by (simp add: build_build_targets onStart_def bind_def perform_def Let_def
        rewrite_fails_env_fields(7,8) e' [simplified])
  show ?thesis
    unfolding e
    by (simp add: b rewrite_fails_env_fields(9) ix tw staging_calls_def sample_paths(1-3)
        sample_paths(4) [OF rewrite_fails_env_fields(4)])
qed

subsection \<open>The pre-build hook\<close>

lemma onStart_run_fails:
  "run c prebuild_command (files w) = Inl e \<Longrightarrow>
   onStart c w = (Inl e, w\<lparr>trace := trace w @ [Run prebuild_command]\<rparr>)"
  by (simp add: onStart_def perform_def)

text \<open>
  C5: if the pre-build process run by \<^verbatim>\<open>onStart\<close> exits non-zero or throws, the hook
  fails with that error; the target is not compiled, no later target is attempted, and
  the run ends with this one error, whatever was built before.
\<close>

theorem prebuild_failure_is_fatal:
  assumes "run c prebuild_command (files w) = Inl e" and "fmt \<noteq> Some ''esm''"
  shows "onStart c w = (Inl e, w\<lparr>trace := trace w @ [Run prebuild_command]\<rparr>)
     \<and> build c (cliBuildConfig\<lparr>format := fmt\<rparr> # ts) w
         = (Inl e, w\<lparr>trace := trace w @ [Run prebuild_command]\<rparr>)
     \<and> (\<forall>pre w0. build c pre w0 = (Inr (), w) \<longrightarrow>
          build c (pre @ cliBuildConfig\<lparr>format := fmt\<rparr> # ts) w0
            = (Inl e, w\<lparr>trace := trace w @ [Run prebuild_command]\<rparr>))"
proof -
  note s = onStart_run_fails [OF assms(1)]
  have b: "build c (cliBuildConfig\<lparr>format := fmt\<rparr> # ts) w
         = (Inl e, w\<lparr>trace := trace w @ [Run prebuild_command]\<rparr>)"
    using s by (simp add: build_target_cli [OF assms(2)] bind_def)
  have "build c (pre @ cliBuildConfig\<lparr>format := fmt\<rparr> # ts) w0
            = (Inl e, w\<lparr>trace := trace w @ [Run prebuild_command]\<rparr>)"
    if "build c pre w0 = (Inr (), w)" for pre w0
    using b that by (simp add: build_append bind_def)
  with s b show ?thesis by blast
qed

text \<open>
  In the sample workspace with a failing pre-build command, the run over the three
  targets stops after that command: nothing is compiled.
\<close>

theorem prebuild_failure_is_fatal_witness:
  "run prebuild_fails_env prebuild_command (files sample_world)
     = Inl (ExitNonZero prebuild_command)
   \<and> (None :: string option) \<noteq> Some ''esm''
   \<and> build prebuild_fails_env build_targets sample_world
       = (Inl (ExitNonZero prebuild_command), sample_world\<lparr>trace := [Run prebuild_command]\<rparr>)"
proof -
  have r: "run prebuild_fails_env prebuild_command (files sample_world)
     = Inl (ExitNonZero prebuild_command)"
    by (simp add: prebuild_fails_env_def)
  have n: "(None :: string option) \<noteq> Some ''esm''" by simp
  have t: "trace sample_world = []" by (simp add: sample_world_def)
  note a = prebuild_failure_is_fatal [OF r n, of "[preinstallBuildConfig, migrateBuildConfig]",
      THEN conjunct2, THEN conjunct1]
  show ?thesis
    using a r by (simp add: cliBuildConfig_format build_targets_def t)
qed

end
